theory Spec2Isabelle
  imports Complex_Main "HOL-Library.Sublist"
begin

section \<open>Python values and exceptions\<close>

text \<open>
  The exceptions that the two modules raise themselves (\<open>RuntimeError\<close>, \<open>TypeError\<close>,
  \<open>NotImplementedError\<close>) and those raised by the operations they call on missing keys,
  missing attributes and arrays of the wrong rank.
\<close>

datatype error =
    RuntimeError
  | TypeError
  | ValueError
  | KeyError
  | AttributeError
  | NotImplementedError
  | NotExistent

text \<open>
  The values stored in a parameter dictionary. Python floats are carried as reals: the code
  only transports them and converts integers to them, it does no arithmetic on them.
\<close>

datatype pyval =
    PyNone
  | PyBool bool
  | PyInt int
  | PyFloat real
  | PyStr string
  | PyList "pyval list"

type_synonym pydict = "string \<rightharpoonup> pyval"

text \<open>The decimal digits that \<open>"%d"\<close> and \<open>"{}".format\<close> print for a natural number.\<close>

definition digit_char :: "nat \<Rightarrow> char" where
  "digit_char d = ''0123456789'' ! d"

function string_of_nat :: "nat \<Rightarrow> string" where
  "string_of_nat n =
     (if n < 10 then [digit_char n]
      else string_of_nat (n div 10) @ [digit_char (n mod 10)])"
  by pat_completeness auto
termination
  by (relation "measure id") auto

declare string_of_nat.simps [simp del]

section \<open>numpy arrays\<close>

text \<open>
  An array is its shape and its elements in row-major order; \<open>wf_array\<close> says that the two
  agree. The element type is the dtype: the arrays of an \<open>ArrayData\<close> node are taken with
  an integer dtype or a floating dtype.
\<close>

record 'a nd =
  shape :: "nat list"
  flat :: "'a list"

datatype ndarray = IntArray "int nd" | FloatArray "real nd"

definition wf_nd :: "'a nd \<Rightarrow> bool" where
  "wf_nd a \<longleftrightarrow> length (flat a) = prod_list (shape a)"

fun wf_array :: "ndarray \<Rightarrow> bool" where
  "wf_array (IntArray a) = wf_nd a"
| "wf_array (FloatArray a) = wf_nd a"

text \<open>\<open>len(a.ravel())\<close>: the number of elements.\<close>

fun ravel_len :: "ndarray \<Rightarrow> nat" where
  "ravel_len (IntArray a) = length (flat a)"
| "ravel_len (FloatArray a) = length (flat a)"

text \<open>\<open>a.shape\<close>; its length is the rank \<open>a.ndim\<close>.\<close>

fun array_shape :: "ndarray \<Rightarrow> nat list" where
  "array_shape (IntArray a) = shape a"
| "array_shape (FloatArray a) = shape a"

text \<open>
  \<open>np.diag\<close>: a vector becomes the square matrix with the vector on its diagonal, a matrix
  becomes the vector of its diagonal, any other rank raises \<open>ValueError\<close>.
\<close>

definition diag_nd :: "'a::zero nd \<Rightarrow> error + 'a nd" where
  "diag_nd a =
     (case shape a of
        [n] \<Rightarrow> Inr \<lparr>shape = [n, n],
                   flat = concat (map (\<lambda>i. map (\<lambda>j. if i = j then flat a ! i else 0) [0..<n]) [0..<n])\<rparr>
      | [r, c] \<Rightarrow> Inr \<lparr>shape = [min r c], flat = map (\<lambda>i. flat a ! (i * c + i)) [0..<min r c]\<rparr>
      | _ \<Rightarrow> Inl ValueError)"

fun np_diag :: "ndarray \<Rightarrow> error + ndarray" where
  "np_diag (IntArray a) = map_sum id IntArray (diag_nd a)"
| "np_diag (FloatArray a) = map_sum id FloatArray (diag_nd a)"

text \<open>\<open>np.issubdtype(a.dtype, np.integer)\<close>.\<close>

fun is_integer_dtype :: "ndarray \<Rightarrow> bool" where
  "is_integer_dtype (IntArray a) = True"
| "is_integer_dtype (FloatArray a) = False"

text \<open>\<open>a.astype(float)\<close>.\<close>

fun astype_float :: "ndarray \<Rightarrow> real nd" where
  "astype_float (IntArray a) = \<lparr>shape = shape a, flat = map real_of_int (flat a)\<rparr>"
| "astype_float (FloatArray a) = a"

text \<open>\<open>np.eye(n)\<close>, which has a floating dtype.\<close>

definition np_eye :: "nat \<Rightarrow> ndarray" where
  "np_eye n =
     FloatArray \<lparr>shape = [n, n],
                 flat = concat (map (\<lambda>i. map (\<lambda>j. if i = j then 1 else 0) [0..<n]) [0..<n])\<rparr>"

text \<open>\<open>a.tolist()\<close>: nested lists following the shape, a scalar for rank 0.\<close>

fun nest :: "('a \<Rightarrow> pyval) \<Rightarrow> nat list \<Rightarrow> 'a list \<Rightarrow> pyval" where
  "nest f [] xs = (case xs of [] \<Rightarrow> PyNone | x # _ \<Rightarrow> f x)"
| "nest f (n # ns) xs =
     PyList (map (\<lambda>k. nest f ns (take (prod_list ns) (drop (k * prod_list ns) xs))) [0..<n])"

fun tolist :: "ndarray \<Rightarrow> pyval" where
  "tolist (IntArray a) = nest PyInt (shape a) (flat a)"
| "tolist (FloatArray a) = nest PyFloat (shape a) (flat a)"

text \<open>An \<open>ArrayData\<close> node: its arrays by name.\<close>

type_synonym array_data = "string \<rightharpoonup> ndarray"

text \<open>
  The other nodes are opaque to this code, which only passes them on: a node is modelled
  by its identifier.
\<close>

datatype structure_data = StructureData nat

section \<open>calcs/base.py: BasePhonopyCalculation\<close>

text \<open>
  The inputs of the calculation job that \<open>prepare_for_submission\<close> reads, the uuid of the
  job and the option \<open>output_filename\<close>.
\<close>

record calc_job =
  inp_settings :: pydict
  inp_fc_only :: bool
  inp_nac_params :: "array_data option"
  inp_primitive :: "structure_data option"
  inp_code_uuid :: string
  job_uuid :: string
  output_filename :: string

text \<open>
  The lists \<open>_calculation_cmd\<close> and \<open>_additional_cmd_params\<close> are lists of lists of
  strings, and the inner lists are objects that \<open>prepare_for_submission\<close> mutates in place
  (\<open>params.append\<close>). The inner lists live in a store and the outer lists hold references,
  so that an inner list shared between entries is mutated once for all of them.
\<close>

type_synonym ref = nat
type_synonym store = "ref \<Rightarrow> string list"

record cmd_lists =
  internal_retrieve_list :: "string list"
  additional_cmd_params :: "ref list"
  calculation_cmd :: "ref list"
  params_store :: store

type_synonym folder = "string \<rightharpoonup> string"

record code_info =
  cmdline_params :: "string list"
  code_uuid :: string
  stdout_name :: string
  withmpi :: bool

record calc_info =
  uuid :: string
  local_copy_list :: "(string \<times> string \<times> string) list"
  remote_copy_list :: "(string \<times> string \<times> string) list"
  retrieve_list :: "string list"
  codes_info :: "code_info list"

definition INPUT_NAC :: string where
  "INPUT_NAC = ''BORN''"

text \<open>\<open>for params in self._additional_cmd_params: params.append('--nac')\<close>\<close>

fun append_nac :: "ref list \<Rightarrow> store \<Rightarrow> store" where
  "append_nac [] h = h"
| "append_nac (r # rs) h = append_nac rs (h(r := h r @ [''--nac'']))"

text \<open>The condition under which the BORN file is prepared.\<close>

definition nac_requested :: "calc_job \<Rightarrow> bool" where
  "nac_requested self \<longleftrightarrow>
     \<not> inp_fc_only self \<and>
     inp_nac_params self \<noteq> None \<and>
     inp_primitive self \<noteq> None \<and>
     ''symmetry_tolerance'' \<in> dom (inp_settings self)"

text \<open>The loop over \<open>enumerate(zip(self._calculation_cmd, self._additional_cmd_params))\<close>.\<close>

definition make_codes_info :: "calc_job \<Rightarrow> cmd_lists \<Rightarrow> code_info list" where
  "make_codes_info self st =
     map (\<lambda>(i, default_params, additional_params).
            \<lparr>cmdline_params = params_store st default_params @ params_store st additional_params,
             code_uuid = inp_code_uuid self,
             stdout_name = output_filename self @ string_of_nat (i + 1),
             withmpi = False\<rparr>)
         (enumerate 0 (zip (calculation_cmd st) (additional_cmd_params st)))"

text \<open>
  \<open>prepare_for_submission\<close>. The hook \<open>_create_additional_files\<close> is abstract in this
  class (its body raises \<open>NotImplementedError\<close>) and is supplied by subclasses: it is the
  parameter \<open>create_additional_files\<close>, which receives the folder and either raises or
  returns the three lists it has set and the folder with the files it has written. The text
  generator \<open>get_BORN_txt\<close> of \<open>aiida_phonopy.common.file_generators\<close> is a parameter as
  well. The result is the \<open>CalcInfo\<close>, the lists as the method leaves them and the folder.
\<close>

definition prepare_for_submission ::
  "(folder \<Rightarrow> error + cmd_lists \<times> folder) \<Rightarrow>
   (array_data \<Rightarrow> structure_data \<Rightarrow> pyval \<Rightarrow> string) \<Rightarrow>
   calc_job \<Rightarrow> folder \<Rightarrow> error + calc_info \<times> cmd_lists \<times> folder" where
  "prepare_for_submission create_additional_files get_BORN_txt self folder =
     (case create_additional_files folder of
        Inl e \<Rightarrow> Inl e
      | Inr (st, folder1) \<Rightarrow>
          let (st2, folder2) =
                (if nac_requested self then
                   let born_txt = get_BORN_txt (the (inp_nac_params self))
                                    (the (inp_primitive self))
                                    (the (inp_settings self ''symmetry_tolerance''))
                   in (st\<lparr>params_store := append_nac (additional_cmd_params st) (params_store st)\<rparr>,
                       folder1(INPUT_NAC \<mapsto> born_txt))
                 else (st, folder1));
              calcinfo = \<lparr>uuid = job_uuid self,
                          local_copy_list = [],
                          remote_copy_list = [],
                          retrieve_list = internal_retrieve_list st2,
                          codes_info = make_codes_info self st2\<rparr>
          in Inr (calcinfo, st2, folder2))"

text \<open>The hook of the base class itself.\<close>

definition base_create_additional_files :: "folder \<Rightarrow> error + cmd_lists \<times> folder" where
  "base_create_additional_files folder = Inl NotImplementedError"

text \<open>
  A hook as a subclass supplies it: two invocations of the code, with their default and
  additional parameters, one retrieved file and one written file. Used to evaluate the
  method on a concrete job.
\<close>

definition example_lists :: cmd_lists where
  "example_lists =
     \<lparr>internal_retrieve_list = [''phonopy.yaml''],
      additional_cmd_params = [2, 3],
      calculation_cmd = [0, 1],
      params_store = (\<lambda>r. [])(0 := [''-c'', ''phonopy.conf''], 1 := [''-c'', ''phonopy.conf''],
                                2 := [''--writefc''], 3 := [''--readfc''])\<rparr>"

definition example_hook :: "folder \<Rightarrow> error + cmd_lists \<times> folder" where
  "example_hook folder = Inr (example_lists, folder(''phonopy.conf'' \<mapsto> ''DIM = 2 2 2''))"

definition example_born :: "array_data \<Rightarrow> structure_data \<Rightarrow> pyval \<Rightarrow> string" where
  "example_born nac prim tol = ''born''"

definition example_job :: calc_job where
  "example_job =
     \<lparr>inp_settings = [''symmetry_tolerance'' \<mapsto> PyFloat 0.00001],
      inp_fc_only = False,
      inp_nac_params = Some Map.empty,
      inp_primitive = Some (StructureData 7),
      inp_code_uuid = ''c0de'',
      job_uuid = ''j0b'',
      output_filename = ''phonopy.stdout''\<rparr>"

section \<open>workchains/phonon.py: PhononPhonopy\<close>

subsection \<open>Nodes\<close>

text \<open>A data node whose content the workchain does not read, by its identifier.\<close>

datatype opaque_data = OpaqueData nat

text \<open>
  The finished \<open>OptimizeStructure\<close> workchain, with the two outputs that \<open>set_unitcell\<close>
  reads; an output that the process did not produce is \<open>None\<close>.
\<close>

record optimize_node =
  optimized_structure :: "structure_data option"
  optimized_structure_data :: "opaque_data option"

text \<open>
  A finished force or dielectric calculation: \<open>get_outputs_dict()\<close>, with the arrays of
  each \<open>ArrayData\<close> output by its link name.
\<close>

record calc_node =
  get_outputs_dict :: "string \<rightharpoonup> array_data"

text \<open>The finished remote phonopy calculation, with the outputs that \<open>collect_data\<close> reads.\<close>

record phonopy_node =
  out_force_constants :: "opaque_data option"
  out_thermal_properties :: "opaque_data option"
  out_dos :: "opaque_data option"
  out_band_structure :: "opaque_data option"

text \<open>
  \<open>ForceSetsData\<close> belongs to the data plugins of the package, outside the two modules at
  hand. The model keeps what \<open>create_force_sets\<close> hands to it: the displacement dataset
  given to the constructor and the list given to \<open>set_forces\<close>.
\<close>

record force_sets_data =
  fs_data_sets :: opaque_data
  fs_forces :: "ndarray list"

text \<open>
  The dictionary \<open>disp_dataset\<close> that \<open>create_displacements\<close> builds: its keys
  \<open>data_sets\<close> and \<open>number_of_displacements\<close>, and the supercell under \<open>structure_i\<close>
  for each i.
\<close>

record disp_dataset =
  data_sets :: opaque_data
  number_of_displacements :: int
  supercells :: "nat \<rightharpoonup> structure_data"

text \<open>The process builder of the remote phonopy calculation.\<close>

record phonopy_builder =
  builder_structure :: "structure_data option"
  builder_parameters :: "pydict option"
  builder_options :: "pydict option"
  builder_force_constants :: "opaque_data option"
  builder_force_sets :: "force_sets_data option"
  builder_nac_data :: "opaque_data option"
  builder_bands :: "opaque_data option"

datatype output_node =
    OutStructure structure_data
  | OutForceSets force_sets_data
  | OutData opaque_data

subsection \<open>Inputs, context and outputs\<close>

text \<open>
  \<open>self.inputs\<close>, as \<open>define\<close> declares them. The optional inputs without a default are
  options; those with a default are always there.
\<close>

record wc_inputs =
  inputs_structure :: structure_data
  inputs_cell_matrices :: array_data
  inputs_calculator_settings :: pydict
  inputs_code_string :: "string option"
  inputs_options :: "pydict option"
  inputs_phonon_settings :: "pydict option"
  inputs_is_nac :: bool
  inputs_optimize :: bool
  inputs_pressure :: real
  inputs_distance :: real
  inputs_symmetry_tolerance :: real
  inputs_run_phonopy :: bool
  inputs_remote_phonopy :: bool

text \<open>
  The state of a running workchain: \<open>self.ctx\<close>, one field for each key that the steps
  use (\<open>None\<close> when the key is not in the context, \<open>ctx_structure i\<close> for the key
  \<open>structure_i\<close>), and the outputs emitted with \<open>self.out\<close>.
\<close>

record wc_state =
  ctx_phonon_settings :: "pydict option"
  ctx_optimized :: "optimize_node option"
  ctx_final_structure :: "structure_data option"
  ctx_primitive_structure :: "structure_data option"
  ctx_disp_dataset :: "disp_dataset option"
  ctx_structure :: "nat \<rightharpoonup> calc_node"
  ctx_born_and_epsilon :: "calc_node option"
  ctx_force_sets :: "force_sets_data option"
  ctx_force_constants :: "opaque_data option"
  ctx_nac_data :: "opaque_data option"
  ctx_band_paths :: "opaque_data option"
  ctx_phonopy_builder :: "phonopy_builder option"
  ctx_phonon_properties :: "phonopy_node option"
  outputs :: "string \<rightharpoonup> output_node"

definition initial_state :: wc_state where
  "initial_state =
     \<lparr>ctx_phonon_settings = None, ctx_optimized = None, ctx_final_structure = None,
      ctx_primitive_structure = None, ctx_disp_dataset = None, ctx_structure = Map.empty,
      ctx_born_and_epsilon = None, ctx_force_sets = None, ctx_force_constants = None,
      ctx_nac_data = None, ctx_band_paths = None, ctx_phonopy_builder = None,
      ctx_phonon_properties = None, outputs = Map.empty\<rparr>"

subsection \<open>What the workchain calls outside itself\<close>

text \<open>
  The sub-processes that the engine runs and whose finished nodes it puts into the context,
  and the computations of phonopy, seekpath and the helpers of \<open>aiida_phonopy.common\<close>.
  Each is a parameter: a function of what the step passes to it, raising or returning.
\<close>

datatype calc_type = Forces | Nac

record displacements =
  primitive :: structure_data
  displacement_dataset :: opaque_data
  supercells_with_displacements :: "structure_data list"

record phonon_results =
  res_force_constants :: opaque_data
  res_thermal_properties :: opaque_data
  res_dos :: opaque_data
  res_band_structure :: opaque_data

record externals =
  submit_optimize :: "structure_data \<Rightarrow> pydict \<Rightarrow> real \<Rightarrow> optimize_node"
  phonopy_displacements :: "structure_data \<Rightarrow> pydict \<Rightarrow> error + displacements"
  submit_calculation :: "calc_type \<Rightarrow> structure_data \<Rightarrow> pydict \<Rightarrow> error + calc_node"
  get_nac_from_data :: "calc_node \<Rightarrow> error + opaque_data"
  get_path_using_seekpath :: "structure_data \<Rightarrow> error + opaque_data"
  get_builder :: "string \<Rightarrow> error + phonopy_builder"
  submit_phonopy :: "phonopy_builder \<Rightarrow> phonopy_node"
  phonopy_properties :: "wc_state \<Rightarrow> error + phonon_results"

subsection \<open>The predicates of the outline\<close>

definition use_optimize :: "wc_inputs \<Rightarrow> bool" where
  "use_optimize inputs = inputs_optimize inputs"

definition remote_phonopy :: "wc_inputs \<Rightarrow> bool" where
  "remote_phonopy inputs = inputs_remote_phonopy inputs"

definition run_phonopy :: "wc_inputs \<Rightarrow> bool" where
  "run_phonopy inputs = inputs_run_phonopy inputs"

definition is_nac :: "wc_inputs \<Rightarrow> bool" where
  "is_nac inputs = inputs_is_nac inputs"

subsection \<open>The steps\<close>

text \<open>\<open>check_settings\<close>\<close>

definition check_settings :: "wc_inputs \<Rightarrow> wc_state \<Rightarrow> error + wc_state" where
  "check_settings inputs st =
     (let phonon_settings_dict =
            (case inputs_phonon_settings inputs of Some d \<Rightarrow> d | None \<Rightarrow> Map.empty)
      in
      case inputs_cell_matrices inputs ''supercell_matrix'' of
        None \<Rightarrow> Inl RuntimeError
      | Some dims \<Rightarrow>
          (case (if ravel_len dims = 3 then np_diag dims else Inr dims) of
             Inl e \<Rightarrow> Inl e
           | Inr smat \<Rightarrow>
               if \<not> is_integer_dtype smat then Inl TypeError
               else
                 let d1 = phonon_settings_dict(''supercell_matrix'' \<mapsto> tolist smat);
                     pmat = (case inputs_cell_matrices inputs ''primitive_matrix'' of
                               Some p \<Rightarrow> p
                             | None \<Rightarrow> np_eye 3);
                     d2 = d1(''primitive_matrix'' \<mapsto> tolist (FloatArray (astype_float pmat)));
                     d3 = (if ''mesh'' \<notin> dom d2
                           then d2(''mesh'' \<mapsto> PyList [PyInt 20, PyInt 20, PyInt 20])
                           else d2);
                     d4 = d3(''distance'' \<mapsto> PyFloat (inputs_distance inputs));
                     tolerance = inputs_symmetry_tolerance inputs;
                     d5 = d4(''symmetry_tolerance'' \<mapsto> PyFloat tolerance)
                 in
                 if inputs_run_phonopy inputs \<and> inputs_remote_phonopy inputs \<and>
                    (inputs_code_string inputs = None \<or> inputs_options inputs = None)
                 then Inl RuntimeError
                 else Inr (st\<lparr>ctx_phonon_settings := Some d5\<rparr>)))"

text \<open>
  \<open>optimize\<close>: the sub-workchain is submitted and \<open>ToContext(optimized=future)\<close> makes the
  engine wait for it and store its node under \<open>optimized\<close>.
\<close>

definition optimize :: "externals \<Rightarrow> wc_inputs \<Rightarrow> wc_state \<Rightarrow> error + wc_state" where
  "optimize ext inputs st =
     Inr (st\<lparr>ctx_optimized :=
            Some (submit_optimize ext (inputs_structure inputs)
                    (inputs_calculator_settings inputs) (inputs_pressure inputs))\<rparr>)"

text \<open>\<open>set_unitcell\<close>; reading an output that the node does not have raises.\<close>

definition set_unitcell :: "wc_inputs \<Rightarrow> wc_state \<Rightarrow> error + wc_state" where
  "set_unitcell inputs st =
     (case ctx_optimized st of
        Some node \<Rightarrow>
          (case optimized_structure node of
             None \<Rightarrow> Inl AttributeError
           | Some s \<Rightarrow>
               (case optimized_structure_data node of
                  None \<Rightarrow> Inl AttributeError
                | Some d \<Rightarrow>
                    Inr (st\<lparr>ctx_final_structure := Some s,
                            outputs := (outputs st)(''optimized_data'' \<mapsto> OutData d)\<rparr>)))
      | None \<Rightarrow> Inr (st\<lparr>ctx_final_structure := Some (inputs_structure inputs)\<rparr>))"


text \<open>
  \<open>create_displacements\<close>: phonopy gives the primitive cell, the displacement dataset and
  the supercells with displacements.
\<close>

definition create_displacements :: "externals \<Rightarrow> wc_inputs \<Rightarrow> wc_state \<Rightarrow> error + wc_state" where
  "create_displacements ext inputs st =
     (case ctx_phonon_settings st of
        None \<Rightarrow> Inl AttributeError
      | Some phonon_settings_dict \<Rightarrow>
          (case ctx_final_structure st of
             None \<Rightarrow> Inl AttributeError
           | Some final_structure \<Rightarrow>
               (case phonopy_displacements ext final_structure phonon_settings_dict of
                  Inl e \<Rightarrow> Inl e
                | Inr phonon \<Rightarrow>
                    let cells_with_disp = supercells_with_displacements phonon;
                        disp_dataset =
                          \<lparr>data_sets = displacement_dataset phonon,
                           number_of_displacements = int (length cells_with_disp),
                           supercells = (\<lambda>i. if i < length cells_with_disp
                                              then Some (cells_with_disp ! i) else None)\<rparr>
                    in Inr (st\<lparr>ctx_primitive_structure := Some (primitive phonon),
                               ctx_disp_dataset := Some disp_dataset\<rparr>))))"

text \<open>
  \<open>run_force_and_nac_calculations\<close>: one calculation for each \<open>i\<close> in
  \<open>range(number_of_displacements)\<close>, stored under \<open>structure_i\<close>, and the calculation of
  the Born charges when \<open>is_nac\<close> is set. The engine waits for all of them before the next
  step.
\<close>

fun submit_forces ::
  "externals \<Rightarrow> wc_inputs \<Rightarrow> disp_dataset \<Rightarrow> nat list \<Rightarrow> (nat \<rightharpoonup> calc_node) \<Rightarrow>
   error + (nat \<rightharpoonup> calc_node)" where
  "submit_forces ext inputs ds [] calcs = Inr calcs"
| "submit_forces ext inputs ds (i # rest) calcs =
     (case supercells ds i of
        None \<Rightarrow> Inl KeyError
      | Some supercell \<Rightarrow>
          (case submit_calculation ext Forces supercell (inputs_calculator_settings inputs) of
             Inl e \<Rightarrow> Inl e
           | Inr node \<Rightarrow> submit_forces ext inputs ds rest (calcs(i \<mapsto> node))))"

definition run_force_and_nac_calculations ::
  "externals \<Rightarrow> wc_inputs \<Rightarrow> wc_state \<Rightarrow> error + wc_state" where
  "run_force_and_nac_calculations ext inputs st =
     (case ctx_disp_dataset st of
        None \<Rightarrow> Inl AttributeError
      | Some ds \<Rightarrow>
          (case submit_forces ext inputs ds [0..<nat (number_of_displacements ds)] (ctx_structure st) of
             Inl e \<Rightarrow> Inl e
           | Inr calcs \<Rightarrow>
               if inputs_is_nac inputs then
                 (case ctx_primitive_structure st of
                    None \<Rightarrow> Inl AttributeError
                  | Some p \<Rightarrow>
                      (case submit_calculation ext Nac p (inputs_calculator_settings inputs) of
                         Inl e \<Rightarrow> Inl e
                       | Inr node \<Rightarrow>
                           Inr (st\<lparr>ctx_structure := calcs, ctx_born_and_epsilon := Some node\<rparr>)))
               else Inr (st\<lparr>ctx_structure := calcs\<rparr>)))"

text \<open>
  \<open>create_force_sets\<close>. The loop appends the array \<open>final\<close> of the output
  \<open>output_forces\<close> of each calculation that has one.
\<close>

fun collect_forces :: "(nat \<rightharpoonup> calc_node) \<Rightarrow> nat list \<Rightarrow> ndarray list \<Rightarrow> error + ndarray list" where
  "collect_forces calcs [] forces = Inr forces"
| "collect_forces calcs (i # rest) forces =
     (case calcs i of
        None \<Rightarrow> Inl KeyError
      | Some node \<Rightarrow>
          (let out_dict = get_outputs_dict node in
           case out_dict ''output_forces'' of
             None \<Rightarrow> collect_forces calcs rest forces
           | Some output_forces \<Rightarrow>
               (case output_forces ''final'' of
                  None \<Rightarrow> collect_forces calcs rest forces
                | Some final \<Rightarrow> collect_forces calcs rest (forces @ [final]))))"

definition create_force_sets :: "wc_inputs \<Rightarrow> wc_state \<Rightarrow> error + wc_state" where
  "create_force_sets inputs st =
     (case ctx_disp_dataset st of
        None \<Rightarrow> Inl AttributeError
      | Some ds \<Rightarrow>
          (case collect_forces (ctx_structure st) [0..<nat (number_of_displacements ds)] [] of
             Inl e \<Rightarrow> Inl e
           | Inr forces \<Rightarrow>
               if int (length forces) \<noteq> number_of_displacements ds then Inl RuntimeError
               else Inr (st\<lparr>ctx_force_sets :=
                              Some \<lparr>fs_data_sets = data_sets ds, fs_forces = forces\<rparr>\<rparr>)))"

text \<open>
  In the words of the specification: the force arrays that can be retrieved from the
  outputs of the calculations of the displacements \<open>0, ..., n - 1\<close>, which are the arrays
  \<open>final\<close> of those calculations that have an output \<open>output_forces\<close> with such an array.
\<close>

definition final_forces :: "calc_node \<Rightarrow> ndarray option" where
  "final_forces node =
     (case get_outputs_dict node ''output_forces'' of
        None \<Rightarrow> None
      | Some output_forces \<Rightarrow> output_forces ''final'')"

definition retrievable_forces :: "(nat \<rightharpoonup> calc_node) \<Rightarrow> nat \<Rightarrow> ndarray list" where
  "retrievable_forces calcs n =
     List.map_filter (\<lambda>i. case calcs i of None \<Rightarrow> None | Some node \<Rightarrow> final_forces node) [0..<n]"

text \<open>\<open>create_nac_params\<close>\<close>

definition create_nac_params :: "externals \<Rightarrow> wc_inputs \<Rightarrow> wc_state \<Rightarrow> error + wc_state" where
  "create_nac_params ext inputs st =
     (case ctx_born_and_epsilon st of
        None \<Rightarrow> Inl AttributeError
      | Some node \<Rightarrow>
          (case get_nac_from_data ext node of
             Inl e \<Rightarrow> Inl e
           | Inr nac \<Rightarrow> Inr (st\<lparr>ctx_nac_data := Some nac\<rparr>)))"

text \<open>\<open>set_default_outputs\<close>\<close>

definition set_default_outputs :: "wc_inputs \<Rightarrow> wc_state \<Rightarrow> error + wc_state" where
  "set_default_outputs inputs st =
     (case ctx_final_structure st of
        None \<Rightarrow> Inl AttributeError
      | Some s \<Rightarrow>
          (case ctx_force_sets st of
             None \<Rightarrow> Inl AttributeError
           | Some fs \<Rightarrow>
               let out1 = (outputs st)(''final_structure'' \<mapsto> OutStructure s);
                   out2 = out1(''force_sets'' \<mapsto> OutForceSets fs);
                   out3 = (case ctx_nac_data st of
                             Some nac \<Rightarrow> out2(''nac_data'' \<mapsto> OutData nac)
                           | None \<Rightarrow> out2)
               in Inr (st\<lparr>outputs := out3\<rparr>)))"

text \<open>\<open>prepare_phonopy_inputs\<close>\<close>

definition prepare_phonopy_inputs :: "externals \<Rightarrow> wc_inputs \<Rightarrow> wc_state \<Rightarrow> error + wc_state" where
  "prepare_phonopy_inputs ext inputs st =
     (case ctx_primitive_structure st of
        None \<Rightarrow> Inl AttributeError
      | Some p \<Rightarrow>
          (case get_path_using_seekpath ext p of
             Inl e \<Rightarrow> Inl e
           | Inr bands \<Rightarrow> Inr (st\<lparr>ctx_band_paths := Some bands\<rparr>)))"

text \<open>
  \<open>create_phonopy_builder\<close>. The builder comes from \<open>Code.get_from_string\<close>, which raises
  when there is no such code; the statements run in the order of the source, the check for
  force sets and force constants last.
\<close>

definition create_phonopy_builder :: "externals \<Rightarrow> wc_inputs \<Rightarrow> wc_state \<Rightarrow> error + wc_state" where
  "create_phonopy_builder ext inputs st =
     (case inputs_code_string inputs of
        None \<Rightarrow> Inl AttributeError
      | Some code_string \<Rightarrow>
          (case get_builder ext code_string of
             Inl e \<Rightarrow> Inl e
           | Inr builder0 \<Rightarrow>
               (case ctx_final_structure st of
                  None \<Rightarrow> Inl AttributeError
                | Some s \<Rightarrow>
                    (case ctx_phonon_settings st of
                       None \<Rightarrow> Inl AttributeError
                     | Some parameters \<Rightarrow>
                         (case inputs_options inputs of
                            None \<Rightarrow> Inl AttributeError
                          | Some opts \<Rightarrow>
                              let b1 = builder0\<lparr>builder_structure := Some s,
                                              builder_parameters := Some parameters,
                                              builder_options := Some opts\<rparr>;
                                  b2 = (case ctx_force_constants st of
                                          Some fc \<Rightarrow> b1\<lparr>builder_force_constants := Some fc\<rparr>
                                        | None \<Rightarrow>
                                            (case ctx_force_sets st of
                                               Some fs \<Rightarrow> b1\<lparr>builder_force_sets := Some fs\<rparr>
                                             | None \<Rightarrow> b1));
                                  b3 = (case ctx_nac_data st of
                                          Some nac \<Rightarrow> b2\<lparr>builder_nac_data := Some nac\<rparr>
                                        | None \<Rightarrow> b2);
                                  b4 = (case ctx_band_paths st of
                                          Some bands \<Rightarrow> b3\<lparr>builder_bands := Some bands\<rparr>
                                        | None \<Rightarrow> b3)
                              in
                              if ctx_force_sets st = None \<and> ctx_force_constants st = None
                              then Inl RuntimeError
                              else Inr (st\<lparr>ctx_phonopy_builder := Some b4\<rparr>))))))"

text \<open>\<open>run_phonopy_remote\<close>\<close>

definition run_phonopy_remote :: "externals \<Rightarrow> wc_inputs \<Rightarrow> wc_state \<Rightarrow> error + wc_state" where
  "run_phonopy_remote ext inputs st =
     (case ctx_phonopy_builder st of
        None \<Rightarrow> Inl AttributeError
      | Some builder \<Rightarrow> Inr (st\<lparr>ctx_phonon_properties := Some (submit_phonopy ext builder)\<rparr>))"

text \<open>
  \<open>run_phonopy_in_workchain\<close>: everything before the four calls of \<open>self.out\<close> is the
  computation by phonopy from the context.
\<close>

definition run_phonopy_in_workchain :: "externals \<Rightarrow> wc_inputs \<Rightarrow> wc_state \<Rightarrow> error + wc_state" where
  "run_phonopy_in_workchain ext inputs st =
     (case phonopy_properties ext st of
        Inl e \<Rightarrow> Inl e
      | Inr res \<Rightarrow>
          Inr (st\<lparr>outputs := (outputs st)
                 (''force_constants'' \<mapsto> OutData (res_force_constants res),
                  ''thermal_properties'' \<mapsto> OutData (res_thermal_properties res),
                  ''dos'' \<mapsto> OutData (res_dos res),
                  ''band_structure'' \<mapsto> OutData (res_band_structure res))\<rparr>))"

text \<open>\<open>collect_data\<close>\<close>

definition collect_data :: "wc_inputs \<Rightarrow> wc_state \<Rightarrow> error + wc_state" where
  "collect_data inputs st =
     (case ctx_phonon_properties st of
        None \<Rightarrow> Inl AttributeError
      | Some node \<Rightarrow>
          (case (out_force_constants node, out_thermal_properties node,
                 out_dos node, out_band_structure node) of
             (Some fc, Some tp, Some dos, Some bs) \<Rightarrow>
               Inr (st\<lparr>outputs := (outputs st)
                      (''force_constants'' \<mapsto> OutData fc,
                       ''thermal_properties'' \<mapsto> OutData tp,
                       ''dos'' \<mapsto> OutData dos,
                       ''band_structure'' \<mapsto> OutData bs)\<rparr>)
           | _ \<Rightarrow> Inl AttributeError))"

subsection \<open>The outline and the engine that runs it\<close>

datatype step =
    Check_settings
  | Optimize
  | Set_unitcell
  | Create_displacements
  | Run_force_and_nac_calculations
  | Create_force_sets
  | Create_nac_params
  | Set_default_outputs
  | Prepare_phonopy_inputs
  | Create_phonopy_builder
  | Run_phonopy_remote
  | Collect_data
  | Run_phonopy_in_workchain

datatype predicate = Use_optimize | Is_nac | Run_phonopy | Remote_phonopy

text \<open>
  An outline is a sequence of steps and conditionals: \<open>if_(p)(body)\<close> is \<open>If p body []\<close>,
  and \<open>if_(p)(body).else_(other)\<close> is \<open>If p body other\<close>.
\<close>

datatype instruction = Step step | If predicate "instruction list" "instruction list"

definition outline :: "instruction list" where
  "outline =
     [Step Check_settings,
      If Use_optimize [Step Optimize] [],
      Step Set_unitcell,
      Step Create_displacements,
      Step Run_force_and_nac_calculations,
      Step Create_force_sets,
      If Is_nac [Step Create_nac_params] [],
      Step Set_default_outputs,
      Step Prepare_phonopy_inputs,
      If Run_phonopy
        [If Remote_phonopy
           [Step Create_phonopy_builder, Step Run_phonopy_remote, Step Collect_data]
           [Step Run_phonopy_in_workchain]]
        []]"

fun holds :: "predicate \<Rightarrow> wc_inputs \<Rightarrow> bool" where
  "holds Use_optimize inputs = use_optimize inputs"
| "holds Is_nac inputs = is_nac inputs"
| "holds Run_phonopy inputs = run_phonopy inputs"
| "holds Remote_phonopy inputs = remote_phonopy inputs"

fun step_method :: "externals \<Rightarrow> step \<Rightarrow> wc_inputs \<Rightarrow> wc_state \<Rightarrow> error + wc_state" where
  "step_method ext Check_settings = check_settings"
| "step_method ext Optimize = optimize ext"
| "step_method ext Set_unitcell = set_unitcell"
| "step_method ext Create_displacements = create_displacements ext"
| "step_method ext Run_force_and_nac_calculations = run_force_and_nac_calculations ext"
| "step_method ext Create_force_sets = create_force_sets"
| "step_method ext Create_nac_params = create_nac_params ext"
| "step_method ext Set_default_outputs = set_default_outputs"
| "step_method ext Prepare_phonopy_inputs = prepare_phonopy_inputs ext"
| "step_method ext Create_phonopy_builder = create_phonopy_builder ext"
| "step_method ext Run_phonopy_remote = run_phonopy_remote ext"
| "step_method ext Collect_data = collect_data"
| "step_method ext Run_phonopy_in_workchain = run_phonopy_in_workchain ext"

text \<open>
  The engine of the workflow framework runs the outline: the instructions in sequence, the
  body of a conditional when its predicate holds and the other body when it does not. A
  step that raises ends the run. The result is the list of the steps that were started, in
  the order in which they were started, and the final state or the exception. The meaning
  of the steps is a parameter \<open>behaviour\<close>, instantiated with \<open>step_method ext\<close> for the
  methods of the class.
\<close>

fun run_instruction ::
    "(step \<Rightarrow> wc_inputs \<Rightarrow> wc_state \<Rightarrow> error + wc_state) \<Rightarrow> wc_inputs \<Rightarrow> instruction \<Rightarrow>
     wc_state \<Rightarrow> step list \<times> (error + wc_state)"
  and run_instructions ::
    "(step \<Rightarrow> wc_inputs \<Rightarrow> wc_state \<Rightarrow> error + wc_state) \<Rightarrow> wc_inputs \<Rightarrow> instruction list \<Rightarrow>
     wc_state \<Rightarrow> step list \<times> (error + wc_state)" where
  "run_instruction behaviour inputs (Step s) st = ([s], behaviour s inputs st)"
| "run_instruction behaviour inputs (If p body other) st =
     (if holds p inputs then run_instructions behaviour inputs body st
      else run_instructions behaviour inputs other st)"
| "run_instructions behaviour inputs [] st = ([], Inr st)"
| "run_instructions behaviour inputs (x # xs) st =
     (case run_instruction behaviour inputs x st of
        (started, Inl e) \<Rightarrow> (started, Inl e)
      | (started, Inr st') \<Rightarrow>
          (case run_instructions behaviour inputs xs st' of
             (started', result) \<Rightarrow> (started @ started', result)))"

text \<open>
  The steps that the outline schedules for given inputs, the predicates being functions of
  the inputs alone, and their execution in sequence. They describe the runs of the engine
  (lemma \<open>run_instructions_scheduled\<close>).
\<close>

fun scheduled_instruction :: "wc_inputs \<Rightarrow> instruction \<Rightarrow> step list"
  and scheduled :: "wc_inputs \<Rightarrow> instruction list \<Rightarrow> step list" where
  "scheduled_instruction inputs (Step s) = [s]"
| "scheduled_instruction inputs (If p body other) =
     (if holds p inputs then scheduled inputs body else scheduled inputs other)"
| "scheduled inputs [] = []"
| "scheduled inputs (x # xs) = scheduled_instruction inputs x @ scheduled inputs xs"

fun run_steps ::
  "(step \<Rightarrow> wc_inputs \<Rightarrow> wc_state \<Rightarrow> error + wc_state) \<Rightarrow> wc_inputs \<Rightarrow> step list \<Rightarrow>
   wc_state \<Rightarrow> step list \<times> (error + wc_state)" where
  "run_steps behaviour inputs [] st = ([], Inr st)"
| "run_steps behaviour inputs (s # ss) st =
     (case behaviour s inputs st of
        Inl e \<Rightarrow> ([s], Inl e)
      | Inr st' \<Rightarrow>
          (case run_steps behaviour inputs ss st' of
             (started, result) \<Rightarrow> (s # started, result)))"

text \<open>The steps of the phonon calculation proper, remote or in the workchain.\<close>

definition phonopy_steps :: "step list \<Rightarrow> step list" where
  "phonopy_steps started =
     filter (\<lambda>s. s = Create_phonopy_builder \<or> s = Run_phonopy_remote \<or> s = Collect_data \<or>
                 s = Run_phonopy_in_workchain) started"

definition run_workchain :: "externals \<Rightarrow> wc_inputs \<Rightarrow> step list \<times> (error + wc_state)" where
  "run_workchain ext inputs = run_instructions (step_method ext) inputs outline initial_state"


subsection \<open>Example inputs\<close>

text \<open>
  Inputs with the defaults of \<open>define\<close> and a supercell given as three numbers, and
  variants of them, on which the steps are evaluated.
\<close>

definition example_inputs :: wc_inputs where
  "example_inputs =
     \<lparr>inputs_structure = StructureData 1,
      inputs_cell_matrices = [''supercell_matrix'' \<mapsto> IntArray \<lparr>shape = [3], flat = [2, 2, 2]\<rparr>],
      inputs_calculator_settings = Map.empty,
      inputs_code_string = None,
      inputs_options = None,
      inputs_phonon_settings = None,
      inputs_is_nac = False,
      inputs_optimize = True,
      inputs_pressure = 0,
      inputs_distance = 0.01,
      inputs_symmetry_tolerance = 0.00001,
      inputs_run_phonopy = False,
      inputs_remote_phonopy = False\<rparr>"

definition float_supercell_inputs :: wc_inputs where
  "float_supercell_inputs =
     example_inputs\<lparr>inputs_cell_matrices :=
       [''supercell_matrix'' \<mapsto> FloatArray \<lparr>shape = [3], flat = [2, 2, 2]\<rparr>]\<rparr>"

text \<open>The supercell given as three numbers in a row, an array of shape \<open>(1, 3)\<close>.\<close>

definition row_supercell_inputs :: wc_inputs where
  "row_supercell_inputs =
     example_inputs\<lparr>inputs_cell_matrices :=
       [''supercell_matrix'' \<mapsto> IntArray \<lparr>shape = [1, 3], flat = [2, 3, 4]\<rparr>]\<rparr>"

definition float_matrix_inputs :: wc_inputs where
  "float_matrix_inputs =
     example_inputs\<lparr>inputs_cell_matrices :=
       [''supercell_matrix'' \<mapsto> FloatArray \<lparr>shape = [3, 3], flat = [2, 0, 0, 0, 2, 0, 0, 0, 2]\<rparr>]\<rparr>"


text \<open>
  A context as the steps before \<open>create_force_sets\<close> leave it: two displacements, and a
  finished calculation with forces for each.
\<close>

definition example_forces :: "real list \<Rightarrow> calc_node" where
  "example_forces xs =
     \<lparr>get_outputs_dict =
        [''output_forces'' \<mapsto> [''final'' \<mapsto> FloatArray \<lparr>shape = [1, 3], flat = xs\<rparr>]]\<rparr>"

definition example_state :: wc_state where
  "example_state =
     initial_state
       \<lparr>ctx_phonon_settings := Some [''mesh'' \<mapsto> PyList [PyInt 20, PyInt 20, PyInt 20]],
        ctx_final_structure := Some (StructureData 1),
        ctx_primitive_structure := Some (StructureData 4),
        ctx_disp_dataset :=
          Some \<lparr>data_sets = OpaqueData 5, number_of_displacements = 2,
                supercells = [0 \<mapsto> StructureData 10, 1 \<mapsto> StructureData 11]\<rparr>,
        ctx_structure := [0 \<mapsto> example_forces [1, 0, 0], 1 \<mapsto> example_forces [0, 1, 0]]\<rparr>"


text \<open>
  Sub-processes and computations that all succeed, for the evaluation of whole runs, and
  the inputs of a run that delegates the phonon calculation to a remote code.
\<close>

definition empty_builder :: phonopy_builder where
  "empty_builder =
     \<lparr>builder_structure = None, builder_parameters = None, builder_options = None,
      builder_force_constants = None, builder_force_sets = None, builder_nac_data = None,
      builder_bands = None\<rparr>"

definition example_externals :: externals where
  "example_externals =
     \<lparr>submit_optimize = (\<lambda>s cs p.
        \<lparr>optimized_structure = Some (StructureData 2),
         optimized_structure_data = Some (OpaqueData 3)\<rparr>),
      phonopy_displacements = (\<lambda>s d.
        Inr \<lparr>primitive = StructureData 4, displacement_dataset = OpaqueData 5,
             supercells_with_displacements = [StructureData 10, StructureData 11]\<rparr>),
      submit_calculation = (\<lambda>t s cs. Inr (example_forces [0, 0, 0])),
      get_nac_from_data = (\<lambda>node. Inr (OpaqueData 6)),
      get_path_using_seekpath = (\<lambda>p. Inr (OpaqueData 7)),
      get_builder = (\<lambda>c. if c = ''phonopy@localhost'' then Inr empty_builder else Inl NotExistent),
      submit_phonopy = (\<lambda>b.
        \<lparr>out_force_constants = Some (OpaqueData 20), out_thermal_properties = Some (OpaqueData 21),
         out_dos = Some (OpaqueData 22), out_band_structure = Some (OpaqueData 23)\<rparr>),
      phonopy_properties = (\<lambda>st.
        Inr \<lparr>res_force_constants = OpaqueData 30, res_thermal_properties = OpaqueData 31,
             res_dos = OpaqueData 32, res_band_structure = OpaqueData 33\<rparr>)\<rparr>"

definition remote_inputs :: wc_inputs where
  "remote_inputs =
     example_inputs\<lparr>inputs_code_string := Some ''phonopy@localhost'',
                    inputs_options := Some Map.empty,
                    inputs_run_phonopy := True,
                    inputs_remote_phonopy := True\<rparr>"

definition example_force_sets :: force_sets_data where
  "example_force_sets =
     \<lparr>fs_data_sets = OpaqueData 5,
      fs_forces = [FloatArray \<lparr>shape = [1, 3], flat = [1, 0, 0]\<rparr>,
                   FloatArray \<lparr>shape = [1, 3], flat = [0, 1, 0]\<rparr>]\<rparr>"

section \<open>Properties of BasePhonopyCalculation\<close>

lemma append_nac_store:
  "append_nac rs h r = h r @ replicate (count_list rs r) ''--nac''"
  by (induction rs arbitrary: h) (auto simp: replicate_append_same)

lemma string_of_nat_digit: "n < 10 \<Longrightarrow> string_of_nat n = [digit_char n]"
  by (simp add: string_of_nat.simps)

lemma make_codes_info_length:
  "length (make_codes_info self st) = min (length (calculation_cmd st)) (length (additional_cmd_params st))"
  by (simp add: make_codes_info_def)

lemma make_codes_info_nth:
  assumes "i < length (make_codes_info self st)"
  shows "make_codes_info self st ! i =
     \<lparr>cmdline_params = params_store st (calculation_cmd st ! i) @ params_store st (additional_cmd_params st ! i),
      code_uuid = inp_code_uuid self,
      stdout_name = output_filename self @ string_of_nat (i + 1),
      withmpi = False\<rparr>"
  using assms by (simp add: make_codes_info_def nth_enumerate_eq)

lemma make_codes_info_cmdline:
  assumes "c \<in> set (make_codes_info self st)"
  shows "\<exists>d a. d \<in> set (calculation_cmd st) \<and> a \<in> set (additional_cmd_params st) \<and>
           cmdline_params c = params_store st d @ params_store st a"
proof -
  from assms obtain i where i: "i < length (make_codes_info self st)" and c: "c = make_codes_info self st ! i"
    by (auto simp: in_set_conv_nth)
  from i have "i < length (calculation_cmd st)" "i < length (additional_cmd_params st)"
    by (simp_all add: make_codes_info_length)
  then have "calculation_cmd st ! i \<in> set (calculation_cmd st)"
            "additional_cmd_params st ! i \<in> set (additional_cmd_params st)"
    by simp_all
  moreover have "cmdline_params c =
      params_store st (calculation_cmd st ! i) @ params_store st (additional_cmd_params st ! i)"
    by (simp add: c make_codes_info_nth [OF i])
  ultimately show ?thesis by blast
qed

lemma prepare_for_submission_requested:
  assumes "hook folder = Inr (st, folder1)" and "nac_requested self"
  shows "prepare_for_submission hook born self folder =
     Inr (\<lparr>uuid = job_uuid self, local_copy_list = [], remote_copy_list = [],
           retrieve_list = internal_retrieve_list st,
           codes_info = make_codes_info self
              (st\<lparr>params_store := append_nac (additional_cmd_params st) (params_store st)\<rparr>)\<rparr>,
          st\<lparr>params_store := append_nac (additional_cmd_params st) (params_store st)\<rparr>,
          folder1(''BORN'' \<mapsto> born (the (inp_nac_params self)) (the (inp_primitive self))
                                  (the (inp_settings self ''symmetry_tolerance''))))"
  using assms by (simp add: prepare_for_submission_def INPUT_NAC_def)

lemma prepare_for_submission_base:
  "prepare_for_submission base_create_additional_files get_BORN_txt self folder =
     Inl NotImplementedError"
  by (simp add: prepare_for_submission_def base_create_additional_files_def)

lemma prepare_for_submission_not_requested:
  assumes "hook folder = Inr (st, folder1)" and "\<not> nac_requested self"
  shows "prepare_for_submission hook born self folder =
     Inr (\<lparr>uuid = job_uuid self, local_copy_list = [], remote_copy_list = [],
           retrieve_list = internal_retrieve_list st,
           codes_info = make_codes_info self st\<rparr>, st, folder1)"
  using assms by (simp add: prepare_for_submission_def)

text \<open>
  Claim C1. Let the hook \<open>_create_additional_files\<close> return, having written no BORN file
  and put no \<open>--nac\<close> into the parameter lists. Then \<open>prepare_for_submission\<close> returns, and
  the BORN file is in the folder, \<open>--nac\<close> has been appended to each additional parameter
  list (once for each of its occurrences in \<open>_additional_cmd_params\<close>) and every command line
  contains \<open>--nac\<close>, if and only if \<open>fc_only\<close> is false, \<open>nac_params\<close> and \<open>primitive\<close> are
  among the inputs and \<open>symmetry_tolerance\<close> is a key of the settings. In every other case
  the folder and the lists are as the hook left them: no BORN file, no \<open>--nac\<close> on any
  command line.
\<close>

theorem prepare_for_submission_nac:
  assumes hook: "create_additional_files folder = Inr (st, folder1)"
    and no_born: "''BORN'' \<notin> dom folder1"
    and no_nac: "''--nac'' \<notin> set (concat (map (params_store st)
                   (calculation_cmd st @ additional_cmd_params st)))"
  shows "\<exists>ci st' folder'.
     prepare_for_submission create_additional_files get_BORN_txt self folder = Inr (ci, st', folder') \<and>
     (''BORN'' \<in> dom folder' \<and>
        (\<forall>r \<in> set (additional_cmd_params st).
           params_store st' r = params_store st r @ replicate (count_list (additional_cmd_params st) r) ''--nac'') \<and>
        (\<forall>c \<in> set (codes_info ci). ''--nac'' \<in> set (cmdline_params c))
      \<longleftrightarrow>
        \<not> inp_fc_only self \<and> inp_nac_params self \<noteq> None \<and> inp_primitive self \<noteq> None \<and>
        ''symmetry_tolerance'' \<in> dom (inp_settings self)) \<and>
     (\<not> (\<not> inp_fc_only self \<and> inp_nac_params self \<noteq> None \<and> inp_primitive self \<noteq> None \<and>
         ''symmetry_tolerance'' \<in> dom (inp_settings self)) \<longrightarrow>
        ''BORN'' \<notin> dom folder' \<and> folder' = folder1 \<and> st' = st \<and>
        (\<forall>c \<in> set (codes_info ci). ''--nac'' \<notin> set (cmdline_params c)))"
proof (cases "nac_requested self")
  case True
  let ?st = "st\<lparr>params_store := append_nac (additional_cmd_params st) (params_store st)\<rparr>"
  have "''--nac'' \<in> set (cmdline_params c)" if "c \<in> set (make_codes_info self ?st)" for c
  proof -
    from make_codes_info_cmdline [OF that] obtain d a
      where a: "a \<in> set (additional_cmd_params st)"
        and c: "cmdline_params c = params_store ?st d @ params_store ?st a"
      by auto
    from a have "count_list (additional_cmd_params st) a \<noteq> 0"
      using count_list_0_iff [of "additional_cmd_params st" a] by blast
    then have "''--nac'' \<in> set (params_store ?st a)"
      by (simp add: append_nac_store)
    with c show ?thesis by simp
  qed
  with True show ?thesis
    unfolding prepare_for_submission_requested
      [where hook = create_additional_files and folder = folder, OF hook True]
    by (simp add: append_nac_store) (simp add: nac_requested_def)
next
  case False
  have "''--nac'' \<notin> set (cmdline_params c)" if "c \<in> set (make_codes_info self st)" for c
    using make_codes_info_cmdline [OF that] no_nac by auto
  with False no_born show ?thesis
    unfolding prepare_for_submission_not_requested
      [where hook = create_additional_files and folder = folder, OF hook False]
    by (simp add: nac_requested_def)
qed


text \<open>
  Claim C10. A \<open>CalcInfo\<close> returned by \<open>prepare_for_submission\<close> has empty
  \<open>local_copy_list\<close> and \<open>remote_copy_list\<close>, and one \<open>CodeInfo\<close> for each pair of
  \<open>zip(_calculation_cmd, _additional_cmd_params)\<close>, so as many as the shorter list has
  entries. The i-th has the i-th default parameters followed by the i-th additional
  parameters as its command line (both as the method leaves them), the output filename
  followed by the decimal digits of i+1 as its stdout name, and \<open>withmpi\<close> false.
\<close>

theorem prepare_for_submission_calcinfo:
  assumes "prepare_for_submission hook born self folder = Inr (ci, st', folder')"
  shows "local_copy_list ci = [] \<and> remote_copy_list ci = [] \<and>
    length (codes_info ci) = min (length (calculation_cmd st')) (length (additional_cmd_params st')) \<and>
    (\<forall>i < length (codes_info ci).
       cmdline_params (codes_info ci ! i) =
         params_store st' (calculation_cmd st' ! i) @ params_store st' (additional_cmd_params st' ! i) \<and>
       stdout_name (codes_info ci ! i) = output_filename self @ string_of_nat (i + 1) \<and>
       withmpi (codes_info ci ! i) = False)"
proof -
  from assms have ci: "ci = \<lparr>uuid = job_uuid self, local_copy_list = [], remote_copy_list = [],
      retrieve_list = internal_retrieve_list st', codes_info = make_codes_info self st'\<rparr>"
    by (auto simp: prepare_for_submission_def Let_def split: sum.splits prod.splits if_splits)
  show ?thesis
    by (simp add: ci make_codes_info_length make_codes_info_nth)
qed

theorem prepare_for_submission_nac_witness:
  "example_hook Map.empty = Inr (example_lists, [''phonopy.conf'' \<mapsto> ''DIM = 2 2 2'']) \<and>
   ''BORN'' \<notin> dom [''phonopy.conf'' \<mapsto> ''DIM = 2 2 2''] \<and>
   ''--nac'' \<notin> set (concat (map (params_store example_lists)
      (calculation_cmd example_lists @ additional_cmd_params example_lists))) \<and>
   (\<exists>ci st' folder'.
      prepare_for_submission example_hook example_born example_job Map.empty = Inr (ci, st', folder') \<and>
      ''BORN'' \<in> dom folder' \<and>
      params_store st' 2 = [''--writefc'', ''--nac''] \<and>
      (\<forall>c \<in> set (codes_info ci). ''--nac'' \<in> set (cmdline_params c)))"
proof -
  have h1: "example_hook Map.empty = Inr (example_lists, [''phonopy.conf'' \<mapsto> ''DIM = 2 2 2''])"
    by (simp add: example_hook_def)
  have h2: "''BORN'' \<notin> dom [''phonopy.conf'' \<mapsto> ''DIM = 2 2 2'']"
    by simp
  have h3: "''--nac'' \<notin> set (concat (map (params_store example_lists)
      (calculation_cmd example_lists @ additional_cmd_params example_lists)))"
    by (simp add: example_lists_def)
  have req: "\<not> inp_fc_only example_job \<and> inp_nac_params example_job \<noteq> None \<and>
      inp_primitive example_job \<noteq> None \<and> ''symmetry_tolerance'' \<in> dom (inp_settings example_job)"
    by (simp add: example_job_def)
  from prepare_for_submission_nac
    [where create_additional_files = example_hook and folder = Map.empty
       and get_BORN_txt = example_born and self = example_job, OF h1 h2 h3]
  obtain ci st' folder' where
    r: "prepare_for_submission example_hook example_born example_job Map.empty = Inr (ci, st', folder')"
    and iff: "(''BORN'' \<in> dom folder' \<and>
        (\<forall>r \<in> set (additional_cmd_params example_lists).
           params_store st' r = params_store example_lists r @
             replicate (count_list (additional_cmd_params example_lists) r) ''--nac'') \<and>
        (\<forall>c \<in> set (codes_info ci). ''--nac'' \<in> set (cmdline_params c)))
      \<longleftrightarrow>
        \<not> inp_fc_only example_job \<and> inp_nac_params example_job \<noteq> None \<and>
        inp_primitive example_job \<noteq> None \<and> ''symmetry_tolerance'' \<in> dom (inp_settings example_job)"
    by blast
  from iff req have born: "''BORN'' \<in> dom folder'"
    and app: "\<forall>r \<in> set (additional_cmd_params example_lists).
           params_store st' r = params_store example_lists r @
             replicate (count_list (additional_cmd_params example_lists) r) ''--nac''"
    and nac: "\<forall>c \<in> set (codes_info ci). ''--nac'' \<in> set (cmdline_params c)"
    by blast+
  from app have "params_store st' 2 = [''--writefc'', ''--nac'']"
    by (simp add: example_lists_def)
  with r born nac h1 h2 h3 show ?thesis by blast
qed

theorem prepare_for_submission_calcinfo_witness:
  "prepare_for_submission example_hook example_born (example_job\<lparr>inp_fc_only := True\<rparr>) Map.empty =
     Inr (\<lparr>uuid = ''j0b'', local_copy_list = [], remote_copy_list = [],
           retrieve_list = [''phonopy.yaml''],
           codes_info = make_codes_info (example_job\<lparr>inp_fc_only := True\<rparr>) example_lists\<rparr>,
          example_lists, [''phonopy.conf'' \<mapsto> ''DIM = 2 2 2'']) \<and>
   length (make_codes_info (example_job\<lparr>inp_fc_only := True\<rparr>) example_lists) = 2 \<and>
   cmdline_params (make_codes_info (example_job\<lparr>inp_fc_only := True\<rparr>) example_lists ! 1) =
     [''-c'', ''phonopy.conf'', ''--readfc''] \<and>
   stdout_name (make_codes_info (example_job\<lparr>inp_fc_only := True\<rparr>) example_lists ! 1) = ''phonopy.stdout2'' \<and>
   withmpi (make_codes_info (example_job\<lparr>inp_fc_only := True\<rparr>) example_lists ! 1) = False"
proof -
  let ?job = "example_job\<lparr>inp_fc_only := True\<rparr>"
  let ?ci = "\<lparr>uuid = ''j0b'', local_copy_list = [], remote_copy_list = [],
           retrieve_list = [''phonopy.yaml''],
           codes_info = make_codes_info ?job example_lists\<rparr>"
  have h: "prepare_for_submission example_hook example_born ?job Map.empty =
             Inr (?ci, example_lists, [''phonopy.conf'' \<mapsto> ''DIM = 2 2 2''])"
    by (simp add: prepare_for_submission_def example_hook_def nac_requested_def example_job_def
        example_lists_def)
  have two: "string_of_nat (Suc (Suc 0)) = ''2''"
    by (simp add: string_of_nat.simps digit_char_def)
  from prepare_for_submission_calcinfo [OF h]
  have len: "length (codes_info ?ci) =
         min (length (calculation_cmd example_lists)) (length (additional_cmd_params example_lists))"
    and each: "\<forall>i < length (codes_info ?ci).
       cmdline_params (codes_info ?ci ! i) =
         params_store example_lists (calculation_cmd example_lists ! i) @
         params_store example_lists (additional_cmd_params example_lists ! i) \<and>
       stdout_name (codes_info ?ci ! i) = output_filename ?job @ string_of_nat (i + 1) \<and>
       withmpi (codes_info ?ci ! i) = False"
    by blast+
  from len have len2: "length (make_codes_info ?job example_lists) = 2"
    by (simp add: example_lists_def)
  with each have "cmdline_params (make_codes_info ?job example_lists ! 1) =
         params_store example_lists (calculation_cmd example_lists ! 1) @
         params_store example_lists (additional_cmd_params example_lists ! 1) \<and>
       stdout_name (make_codes_info ?job example_lists ! 1) = output_filename ?job @ string_of_nat (1 + 1) \<and>
       withmpi (make_codes_info ?job example_lists ! 1) = False"
    by simp
  then have "cmdline_params (make_codes_info ?job example_lists ! 1) = [''-c'', ''phonopy.conf'', ''--readfc''] \<and>
       stdout_name (make_codes_info ?job example_lists ! 1) = ''phonopy.stdout2'' \<and>
       withmpi (make_codes_info ?job example_lists ! 1) = False"
    by (simp add: example_lists_def example_job_def two)
  with h len2 show ?thesis by blast
qed

section \<open>Properties of PhononPhonopy\<close>

lemma diag_nd_cases:
  "diag_nd a = Inl e \<longleftrightarrow> e = ValueError \<and> length (shape a) \<noteq> 1 \<and> length (shape a) \<noteq> 2"
  by (auto simp: diag_nd_def split: list.splits)

lemma np_diag_raises:
  "np_diag dims = Inl e \<longleftrightarrow>
     e = ValueError \<and> length (array_shape dims) \<noteq> 1 \<and> length (array_shape dims) \<noteq> 2"
proof (cases dims)
  case (IntArray a)
  then show ?thesis
    using diag_nd_cases [of a e] by (cases "diag_nd a") auto
next
  case (FloatArray a)
  then show ?thesis
    using diag_nd_cases [of a e] by (cases "diag_nd a") auto
qed

lemma np_diag_dtype:
  "np_diag dims = Inr smat \<Longrightarrow> is_integer_dtype smat = is_integer_dtype dims"
  by (cases dims) (auto simp: map_sum_def split: sum.splits)


lemma read_supercell_cases:
  "(if ravel_len dims = 3 then np_diag dims else Inr dims) = Inl e \<longleftrightarrow>
     e = ValueError \<and> ravel_len dims = 3 \<and> length (array_shape dims) \<noteq> 1 \<and> length (array_shape dims) \<noteq> 2"
  by (auto simp: np_diag_raises)

lemma read_supercell_dtype:
  "(if ravel_len dims = 3 then np_diag dims else Inr dims) = Inr smat \<Longrightarrow>
     is_integer_dtype smat = is_integer_dtype dims"
  by (auto simp: np_diag_dtype split: if_splits)

lemma check_settings_absent:
  "inputs_cell_matrices inputs ''supercell_matrix'' = None \<Longrightarrow>
     check_settings inputs st = Inl RuntimeError"
  by (simp add: check_settings_def)

lemma check_settings_diag_raises:
  assumes "inputs_cell_matrices inputs ''supercell_matrix'' = Some dims"
    and "ravel_len dims = 3" and "length (array_shape dims) \<noteq> 1" and "length (array_shape dims) \<noteq> 2"
  shows "check_settings inputs st = Inl ValueError"
proof -
  have "np_diag dims = Inl ValueError"
    using assms by (simp add: np_diag_raises)
  with assms show ?thesis by (simp add: check_settings_def)
qed

lemma check_settings_read:
  assumes "inputs_cell_matrices inputs ''supercell_matrix'' = Some dims"
    and "\<not> (ravel_len dims = 3 \<and> length (array_shape dims) \<noteq> 1 \<and> length (array_shape dims) \<noteq> 2)"
  obtains smat where "(if ravel_len dims = 3 then np_diag dims else Inr dims) = Inr smat"
    and "is_integer_dtype smat = is_integer_dtype dims"
proof (cases "if ravel_len dims = 3 then np_diag dims else Inr dims")
  case (Inl e)
  with assms(2) show ?thesis by (simp only: read_supercell_cases) blast
next
  case (Inr smat)
  with read_supercell_dtype [OF Inr] that show ?thesis by blast
qed

lemma check_settings_not_integer:
  assumes "inputs_cell_matrices inputs ''supercell_matrix'' = Some dims"
    and "\<not> (ravel_len dims = 3 \<and> length (array_shape dims) \<noteq> 1 \<and> length (array_shape dims) \<noteq> 2)"
    and "\<not> is_integer_dtype dims"
  shows "check_settings inputs st = Inl TypeError"
proof -
  from check_settings_read [OF assms(1,2)] obtain smat
    where "(if ravel_len dims = 3 then np_diag dims else Inr dims) = Inr smat"
      and "is_integer_dtype smat = is_integer_dtype dims" by blast
  with assms(1,3) show ?thesis by (simp add: check_settings_def)
qed

lemma check_settings_unspecified:
  assumes "inputs_cell_matrices inputs ''supercell_matrix'' = Some dims"
    and "(if ravel_len dims = 3 then np_diag dims else Inr dims) = Inr smat"
    and "is_integer_dtype smat"
    and "inputs_run_phonopy inputs \<and> inputs_remote_phonopy inputs \<and>
         (inputs_code_string inputs = None \<or> inputs_options inputs = None)"
  shows "check_settings inputs st = Inl RuntimeError"
  using assms by (simp add: check_settings_def Let_def del: fun_upd_apply)

lemma check_settings_accepts:
  assumes "inputs_cell_matrices inputs ''supercell_matrix'' = Some dims"
    and "(if ravel_len dims = 3 then np_diag dims else Inr dims) = Inr smat"
    and "is_integer_dtype smat"
    and "\<not> (inputs_run_phonopy inputs \<and> inputs_remote_phonopy inputs \<and>
         (inputs_code_string inputs = None \<or> inputs_options inputs = None))"
  shows "check_settings inputs st = Inr (st\<lparr>ctx_phonon_settings := Some
     ((let d2 = (case inputs_phonon_settings inputs of Some d \<Rightarrow> d | None \<Rightarrow> Map.empty)
                (''supercell_matrix'' \<mapsto> tolist smat,
                 ''primitive_matrix'' \<mapsto> tolist (FloatArray (astype_float
                    (case inputs_cell_matrices inputs ''primitive_matrix'' of
                       Some p \<Rightarrow> p | None \<Rightarrow> np_eye 3))))
       in if ''mesh'' \<notin> dom d2 then d2(''mesh'' \<mapsto> PyList [PyInt 20, PyInt 20, PyInt 20]) else d2)
      (''distance'' \<mapsto> PyFloat (inputs_distance inputs),
       ''symmetry_tolerance'' \<mapsto> PyFloat (inputs_symmetry_tolerance inputs)))\<rparr>)"
proof -
  from assms(4) have "(inputs_run_phonopy inputs \<and> inputs_remote_phonopy inputs \<and>
         (inputs_code_string inputs = None \<or> inputs_options inputs = None)) = False"
    by simp
  with assms(1-3) show ?thesis
    unfolding check_settings_def Let_def
    by (simp only: option.case sum.case if_False if_True not_True_eq_False not_False_eq_True)
qed

lemma check_settings_integer:
  assumes "inputs_cell_matrices inputs ''supercell_matrix'' = Some dims"
    and "\<not> (ravel_len dims = 3 \<and> length (array_shape dims) \<noteq> 1 \<and> length (array_shape dims) \<noteq> 2)"
    and "is_integer_dtype dims"
  shows "\<exists>d. check_settings inputs st =
     (if inputs_run_phonopy inputs \<and> inputs_remote_phonopy inputs \<and>
         (inputs_code_string inputs = None \<or> inputs_options inputs = None)
      then Inl RuntimeError else Inr (st\<lparr>ctx_phonon_settings := Some d\<rparr>))"
proof -
  from check_settings_read [OF assms(1,2)] obtain smat
    where smat: "(if ravel_len dims = 3 then np_diag dims else Inr dims) = Inr smat"
      and "is_integer_dtype smat = is_integer_dtype dims" by blast
  with assms(3) have int: "is_integer_dtype smat" by simp
  show ?thesis
  proof (cases "inputs_run_phonopy inputs \<and> inputs_remote_phonopy inputs \<and>
         (inputs_code_string inputs = None \<or> inputs_options inputs = None)")
    case True
    from check_settings_unspecified [OF assms(1) smat int True] True show ?thesis
      by simp
  next
    case False
    from check_settings_accepts [OF assms(1) smat int False] False show ?thesis
      by (simp only: if_False) (rule exI, rule refl)
  qed
qed

text \<open>
  Claim C4, as amended. \<open>check_settings\<close> raises \<open>RuntimeError\<close> if and only if
  \<open>supercell_matrix\<close> is not among the arrays of \<open>cell_matrices\<close>, or it is there, is read
  without error, has an integer dtype, and \<open>run_phonopy\<close> and \<open>remote_phonopy\<close> are both
  true while \<open>code_string\<close> or \<open>options\<close> is absent. It raises \<open>TypeError\<close> if and only if
  the array is there, is read without error and does not have an integer dtype, and
  \<open>ValueError\<close> (from \<open>np.diag\<close>) if and only if the array has 3 elements and a rank other
  than 1 or 2. In all other cases it completes and stores phonon settings in the context.
\<close>

theorem check_settings_raises:
  "(check_settings inputs st = Inl RuntimeError \<longleftrightarrow>
      inputs_cell_matrices inputs ''supercell_matrix'' = None \<or>
      (\<exists>dims. inputs_cell_matrices inputs ''supercell_matrix'' = Some dims \<and>
         \<not> (ravel_len dims = 3 \<and> length (array_shape dims) \<noteq> 1 \<and> length (array_shape dims) \<noteq> 2) \<and>
         is_integer_dtype dims \<and>
         inputs_run_phonopy inputs \<and> inputs_remote_phonopy inputs \<and>
         (inputs_code_string inputs = None \<or> inputs_options inputs = None))) \<and>
   (check_settings inputs st = Inl TypeError \<longleftrightarrow>
      (\<exists>dims. inputs_cell_matrices inputs ''supercell_matrix'' = Some dims \<and>
         \<not> (ravel_len dims = 3 \<and> length (array_shape dims) \<noteq> 1 \<and> length (array_shape dims) \<noteq> 2) \<and>
         \<not> is_integer_dtype dims)) \<and>
   (check_settings inputs st = Inl ValueError \<longleftrightarrow>
      (\<exists>dims. inputs_cell_matrices inputs ''supercell_matrix'' = Some dims \<and>
         ravel_len dims = 3 \<and> length (array_shape dims) \<noteq> 1 \<and> length (array_shape dims) \<noteq> 2)) \<and>
   (check_settings inputs st \<noteq> Inl RuntimeError \<and> check_settings inputs st \<noteq> Inl TypeError \<and>
    check_settings inputs st \<noteq> Inl ValueError \<longrightarrow>
      (\<exists>d. check_settings inputs st = Inr (st\<lparr>ctx_phonon_settings := Some d\<rparr>)))"
proof (cases "inputs_cell_matrices inputs ''supercell_matrix''")
  case None
  then show ?thesis by (simp add: check_settings_absent)
next
  case (Some dims)
  show ?thesis
  proof (cases "ravel_len dims = 3 \<and> length (array_shape dims) \<noteq> 1 \<and> length (array_shape dims) \<noteq> 2")
    case True
    then have "check_settings inputs st = Inl ValueError"
      using Some by (simp add: check_settings_diag_raises)
    with Some True show ?thesis by simp
  next
    case False
    show ?thesis
    proof (cases "is_integer_dtype dims")
      case int: True
      from check_settings_integer [OF Some False int, of st] obtain d where
        "check_settings inputs st =
          (if inputs_run_phonopy inputs \<and> inputs_remote_phonopy inputs \<and>
              (inputs_code_string inputs = None \<or> inputs_options inputs = None)
           then Inl RuntimeError else Inr (st\<lparr>ctx_phonon_settings := Some d\<rparr>))" by blast
      with Some False int show ?thesis by auto
    next
      case nonint: False
      from check_settings_not_integer [OF Some False nonint]
      have "check_settings inputs st = Inl TypeError" .
      with Some False nonint show ?thesis by simp
    qed
  qed
qed

lemma upt3: "[0..<3] = [0, 1, 2]"
  by (simp add: upt_rec)

lemma np_diag_three:
  "np_diag (IntArray \<lparr>shape = [3], flat = [a, b, c]\<rparr>) =
     Inr (IntArray \<lparr>shape = [3, 3], flat = [a, 0, 0, 0, b, 0, 0, 0, c]\<rparr>)"
  by (simp add: diag_nd_def upt3)

lemma np_diag_row:
  "np_diag (IntArray \<lparr>shape = [1, 3], flat = [a, b, c]\<rparr>) =
     Inr (IntArray \<lparr>shape = [1], flat = [a]\<rparr>)"
  by (simp add: diag_nd_def)

lemma tolist_3x3:
  "tolist (IntArray \<lparr>shape = [3, 3], flat = [x11, x12, x13, x21, x22, x23, x31, x32, x33]\<rparr>) =
     PyList [PyList [PyInt x11, PyInt x12, PyInt x13],
             PyList [PyInt x21, PyInt x22, PyInt x23],
             PyList [PyInt x31, PyInt x32, PyInt x33]]"
  by (simp add: upt3)

lemma tolist_eye3:
  "tolist (FloatArray (astype_float (np_eye 3))) =
     PyList [PyList [PyFloat 1, PyFloat 0, PyFloat 0],
             PyList [PyFloat 0, PyFloat 1, PyFloat 0],
             PyList [PyFloat 0, PyFloat 0, PyFloat 1]]"
  by (simp add: np_eye_def upt3)


text \<open>
  Claim C4 as it is stated fails: with a supercell of three floating point numbers and
  \<open>run_phonopy\<close> false, neither of its two conditions holds, and \<open>check_settings\<close> does
  not complete but raises \<open>TypeError\<close>.
\<close>

theorem check_settings_type_error_counterexample:
  "inputs_cell_matrices float_supercell_inputs ''supercell_matrix'' \<noteq> None \<and>
   \<not> (inputs_run_phonopy float_supercell_inputs \<and> inputs_remote_phonopy float_supercell_inputs) \<and>
   check_settings float_supercell_inputs initial_state = Inl TypeError"
  by (simp add: float_supercell_inputs_def example_inputs_def check_settings_def diag_nd_def)

theorem check_settings_raises_witness:
  "check_settings example_inputs initial_state \<noteq> Inl RuntimeError \<and>
   check_settings example_inputs initial_state \<noteq> Inl TypeError \<and>
   (\<exists>d. check_settings example_inputs initial_state =
           Inr (initial_state\<lparr>ctx_phonon_settings := Some d\<rparr>))"
proof -
  have sm: "inputs_cell_matrices example_inputs ''supercell_matrix'' =
              Some (IntArray \<lparr>shape = [3], flat = [2, 2, 2]\<rparr>)"
    by (simp add: example_inputs_def)
  have run: "\<not> inputs_run_phonopy example_inputs"
    by (simp add: example_inputs_def)
  note cases = check_settings_raises [of example_inputs initial_state]
  from cases sm have no_value_error: "check_settings example_inputs initial_state \<noteq> Inl ValueError"
    by simp
  from cases sm run have a: "check_settings example_inputs initial_state \<noteq> Inl RuntimeError"
    by simp
  from cases sm have b: "check_settings example_inputs initial_state \<noteq> Inl TypeError"
    by simp
  from cases a b no_value_error
  have "\<exists>d. check_settings example_inputs initial_state =
           Inr (initial_state\<lparr>ctx_phonon_settings := Some d\<rparr>)"
    by blast
  with a b show ?thesis by blast
qed

text \<open>
  Claim C5, as amended. When \<open>supercell_matrix\<close> is present and does not have an integer
  dtype, \<open>check_settings\<close> raises \<open>TypeError\<close>, which is not a \<open>RuntimeError\<close>; for an array
  of 3 elements and a rank other than 1 or 2, \<open>np.diag\<close> raises \<open>ValueError\<close> before the
  dtype is looked at.
\<close>

theorem check_settings_not_integer_dtype:
  assumes "inputs_cell_matrices inputs ''supercell_matrix'' = Some dims"
    and "\<not> is_integer_dtype dims"
  shows "check_settings inputs st =
     (if ravel_len dims = 3 \<and> length (array_shape dims) \<noteq> 1 \<and> length (array_shape dims) \<noteq> 2
      then Inl ValueError else Inl TypeError)"
proof (cases "ravel_len dims = 3 \<and> length (array_shape dims) \<noteq> 1 \<and> length (array_shape dims) \<noteq> 2")
  case True
  with assms(1) show ?thesis by (simp add: check_settings_diag_raises)
next
  case False
  from check_settings_not_integer [OF assms(1) False assms(2)] False show ?thesis
    by (simp only: if_False)
qed

text \<open>
  Claim C5 as it is stated fails: for a 3x3 matrix of floating point numbers the exception
  is not \<open>RuntimeError\<close>.
\<close>

theorem check_settings_not_runtime_error_counterexample:
  "inputs_cell_matrices float_matrix_inputs ''supercell_matrix'' =
     Some (FloatArray \<lparr>shape = [3, 3], flat = [2, 0, 0, 0, 2, 0, 0, 0, 2]\<rparr>) \<and>
   \<not> is_integer_dtype (FloatArray \<lparr>shape = [3, 3], flat = [2, 0, 0, 0, 2, 0, 0, 0, 2]\<rparr>) \<and>
   check_settings float_matrix_inputs initial_state \<noteq> Inl RuntimeError"
  by (simp add: float_matrix_inputs_def example_inputs_def check_settings_def)

theorem check_settings_not_integer_dtype_witness:
  "inputs_cell_matrices float_matrix_inputs ''supercell_matrix'' =
     Some (FloatArray \<lparr>shape = [3, 3], flat = [2, 0, 0, 0, 2, 0, 0, 0, 2]\<rparr>) \<and>
   \<not> is_integer_dtype (FloatArray \<lparr>shape = [3, 3], flat = [2, 0, 0, 0, 2, 0, 0, 0, 2]\<rparr>) \<and>
   check_settings float_matrix_inputs initial_state = Inl TypeError"
proof -
  have h1: "inputs_cell_matrices float_matrix_inputs ''supercell_matrix'' =
     Some (FloatArray \<lparr>shape = [3, 3], flat = [2, 0, 0, 0, 2, 0, 0, 0, 2]\<rparr>)"
    by (simp add: float_matrix_inputs_def)
  have h2: "\<not> is_integer_dtype (FloatArray \<lparr>shape = [3, 3], flat = [2, 0, 0, 0, 2, 0, 0, 0, 2]\<rparr>)"
    by simp
  from check_settings_not_integer_dtype [OF h1 h2, of initial_state]
  have "check_settings float_matrix_inputs initial_state = Inl TypeError"
    by simp
  with h1 h2 show ?thesis by blast
qed

lemma check_settings_completes:
  assumes "check_settings inputs st = Inr st'"
  obtains dims smat where
    "inputs_cell_matrices inputs ''supercell_matrix'' = Some dims"
    "(if ravel_len dims = 3 then np_diag dims else Inr dims) = Inr smat"
    "is_integer_dtype smat"
    "\<not> (inputs_run_phonopy inputs \<and> inputs_remote_phonopy inputs \<and>
         (inputs_code_string inputs = None \<or> inputs_options inputs = None))"
proof (cases "inputs_cell_matrices inputs ''supercell_matrix''")
  case None
  with assms show ?thesis by (simp add: check_settings_absent)
next
  case (Some dims)
  show ?thesis
  proof (cases "if ravel_len dims = 3 then np_diag dims else Inr dims")
    case (Inl e)
    with Some assms show ?thesis by (simp add: check_settings_def)
  next
    case (Inr smat)
    show ?thesis
    proof (cases "is_integer_dtype smat")
      case False
      with Some Inr assms show ?thesis by (simp add: check_settings_def)
    next
      case True
      have nb: "\<not> (inputs_run_phonopy inputs \<and> inputs_remote_phonopy inputs \<and>
         (inputs_code_string inputs = None \<or> inputs_options inputs = None))"
      proof
        assume "inputs_run_phonopy inputs \<and> inputs_remote_phonopy inputs \<and>
         (inputs_code_string inputs = None \<or> inputs_options inputs = None)"
        from check_settings_unspecified [OF Some Inr True this, of st] assms
        show False by simp
      qed
      show ?thesis by (rule that [OF Some Inr True nb])
    qed
  qed
qed

text \<open>
  What \<open>check_settings\<close> stores when it completes: for a
  \<open>supercell_matrix\<close> given as a vector of 3 numbers, the 3x3 diagonal matrix of those
  numbers; for a 3x3 matrix (and any array that does not have 3 elements), the array as it
  is; the 3x3 identity matrix as \<open>primitive_matrix\<close> when \<open>cell_matrices\<close> has none; the mesh
  \<open>[20, 20, 20]\<close> when \<open>phonon_settings\<close> gives none, and the given mesh otherwise; and the
  inputs \<open>distance\<close> and \<open>symmetry_tolerance\<close> as floats.
\<close>

theorem check_settings_normalizes:
  assumes "check_settings inputs st = Inr st'"
  shows "\<exists>d. ctx_phonon_settings st' = Some d \<and>
    (\<forall>a b c. inputs_cell_matrices inputs ''supercell_matrix'' =
               Some (IntArray \<lparr>shape = [3], flat = [a, b, c]\<rparr>) \<longrightarrow>
       d ''supercell_matrix'' =
         Some (PyList [PyList [PyInt a, PyInt 0, PyInt 0],
                       PyList [PyInt 0, PyInt b, PyInt 0],
                       PyList [PyInt 0, PyInt 0, PyInt c]])) \<and>
    (\<forall>x11 x12 x13 x21 x22 x23 x31 x32 x33.
       inputs_cell_matrices inputs ''supercell_matrix'' =
         Some (IntArray \<lparr>shape = [3, 3], flat = [x11, x12, x13, x21, x22, x23, x31, x32, x33]\<rparr>) \<longrightarrow>
       d ''supercell_matrix'' =
         Some (PyList [PyList [PyInt x11, PyInt x12, PyInt x13],
                       PyList [PyInt x21, PyInt x22, PyInt x23],
                       PyList [PyInt x31, PyInt x32, PyInt x33]])) \<and>
    (\<forall>dims. inputs_cell_matrices inputs ''supercell_matrix'' = Some dims \<and> ravel_len dims \<noteq> 3 \<longrightarrow>
       d ''supercell_matrix'' = Some (tolist dims)) \<and>
    (inputs_cell_matrices inputs ''primitive_matrix'' = None \<longrightarrow>
       d ''primitive_matrix'' =
         Some (PyList [PyList [PyFloat 1, PyFloat 0, PyFloat 0],
                       PyList [PyFloat 0, PyFloat 1, PyFloat 0],
                       PyList [PyFloat 0, PyFloat 0, PyFloat 1]])) \<and>
    ((case inputs_phonon_settings inputs of None \<Rightarrow> True | Some d0 \<Rightarrow> d0 ''mesh'' = None) \<longrightarrow>
       d ''mesh'' = Some (PyList [PyInt 20, PyInt 20, PyInt 20])) \<and>
    (\<forall>d0 m. inputs_phonon_settings inputs = Some d0 \<and> d0 ''mesh'' = Some m \<longrightarrow>
       d ''mesh'' = Some m) \<and>
    d ''distance'' = Some (PyFloat (inputs_distance inputs)) \<and>
    d ''symmetry_tolerance'' = Some (PyFloat (inputs_symmetry_tolerance inputs))"
proof -
  from check_settings_completes [OF assms] obtain dims smat where
    sm: "inputs_cell_matrices inputs ''supercell_matrix'' = Some dims"
    and rd: "(if ravel_len dims = 3 then np_diag dims else Inr dims) = Inr smat"
    and int: "is_integer_dtype smat"
    and ok: "\<not> (inputs_run_phonopy inputs \<and> inputs_remote_phonopy inputs \<and>
         (inputs_code_string inputs = None \<or> inputs_options inputs = None))"
    by blast
  define d0 where "d0 = (case inputs_phonon_settings inputs of Some d \<Rightarrow> d | None \<Rightarrow> Map.empty)"
  define pm where "pm = tolist (FloatArray (astype_float
                    (case inputs_cell_matrices inputs ''primitive_matrix'' of
                       Some p \<Rightarrow> p | None \<Rightarrow> np_eye 3)))"
  define d where "d =
     ((let d2 = d0(''supercell_matrix'' \<mapsto> tolist smat, ''primitive_matrix'' \<mapsto> pm)
       in if ''mesh'' \<notin> dom d2 then d2(''mesh'' \<mapsto> PyList [PyInt 20, PyInt 20, PyInt 20]) else d2)
      (''distance'' \<mapsto> PyFloat (inputs_distance inputs),
       ''symmetry_tolerance'' \<mapsto> PyFloat (inputs_symmetry_tolerance inputs)))"
  from check_settings_accepts [OF sm rd int ok, of st] assms
  have st': "st' = st\<lparr>ctx_phonon_settings := Some d\<rparr>"
    by (simp only: d_def d0_def pm_def sum.inject)
  have stored: "ctx_phonon_settings st' = Some d"
    by (simp add: st')
  have supercell: "d ''supercell_matrix'' = Some (tolist smat)"
    by (simp add: d_def Let_def)
  have primitive: "d ''primitive_matrix'' = Some pm"
    by (simp add: d_def Let_def)
  have mesh: "d ''mesh'' = (case d0 ''mesh'' of None \<Rightarrow> Some (PyList [PyInt 20, PyInt 20, PyInt 20])
                             | Some m \<Rightarrow> Some m)"
    by (auto simp: d_def Let_def split: option.splits)
  have distance: "d ''distance'' = Some (PyFloat (inputs_distance inputs))"
    by (simp add: d_def)
  have tolerance: "d ''symmetry_tolerance'' = Some (PyFloat (inputs_symmetry_tolerance inputs))"
    by (simp add: d_def)
  have three: "d ''supercell_matrix'' =
         Some (PyList [PyList [PyInt a, PyInt 0, PyInt 0],
                       PyList [PyInt 0, PyInt b, PyInt 0],
                       PyList [PyInt 0, PyInt 0, PyInt c]])"
    if "inputs_cell_matrices inputs ''supercell_matrix'' =
               Some (IntArray \<lparr>shape = [3], flat = [a, b, c]\<rparr>)" for a b c
  proof -
    from that sm have "dims = IntArray \<lparr>shape = [3], flat = [a, b, c]\<rparr>" by simp
    with rd have "smat = IntArray \<lparr>shape = [3, 3], flat = [a, 0, 0, 0, b, 0, 0, 0, c]\<rparr>"
      by (simp add: np_diag_three del: np_diag.simps)
    then show ?thesis by (simp only: supercell tolist_3x3)
  qed
  have kept: "d ''supercell_matrix'' = Some (tolist dims')"
    if "inputs_cell_matrices inputs ''supercell_matrix'' = Some dims' \<and> ravel_len dims' \<noteq> 3" for dims'
  proof -
    from that sm have "dims' = dims" "ravel_len dims \<noteq> 3" by simp_all
    with rd have "smat = dims'" by simp
    then show ?thesis by (simp only: supercell)
  qed
  have matrix: "d ''supercell_matrix'' =
         Some (PyList [PyList [PyInt x11, PyInt x12, PyInt x13],
                       PyList [PyInt x21, PyInt x22, PyInt x23],
                       PyList [PyInt x31, PyInt x32, PyInt x33]])"
    if "inputs_cell_matrices inputs ''supercell_matrix'' =
         Some (IntArray \<lparr>shape = [3, 3], flat = [x11, x12, x13, x21, x22, x23, x31, x32, x33]\<rparr>)"
    for x11 x12 x13 x21 x22 x23 x31 x32 x33
  proof -
    have "ravel_len (IntArray \<lparr>shape = [3, 3], flat = [x11, x12, x13, x21, x22, x23, x31, x32, x33]\<rparr>) \<noteq> 3"
      by simp
    with that kept show ?thesis by (simp only: tolist_3x3)
  qed
  have identity: "d ''primitive_matrix'' =
         Some (PyList [PyList [PyFloat 1, PyFloat 0, PyFloat 0],
                       PyList [PyFloat 0, PyFloat 1, PyFloat 0],
                       PyList [PyFloat 0, PyFloat 0, PyFloat 1]])"
    if "inputs_cell_matrices inputs ''primitive_matrix'' = None"
    using that by (simp only: primitive pm_def option.case tolist_eye3)
  have default_mesh: "d ''mesh'' = Some (PyList [PyInt 20, PyInt 20, PyInt 20])"
    if "case inputs_phonon_settings inputs of None \<Rightarrow> True | Some d0 \<Rightarrow> d0 ''mesh'' = None"
    using that by (simp add: mesh d0_def split: option.splits)
  have given_mesh: "d ''mesh'' = Some m"
    if "inputs_phonon_settings inputs = Some d1 \<and> d1 ''mesh'' = Some m" for d1 m
    using that by (simp add: mesh d0_def)
  show ?thesis
  proof (intro exI [of _ d] conjI allI impI)
    show "ctx_phonon_settings st' = Some d" by (fact stored)
  qed (fact distance tolerance | erule three matrix kept identity default_mesh given_mesh)+
qed


theorem check_settings_normalizes_witness:
  "\<exists>st'. check_settings example_inputs initial_state = Inr st' \<and>
     (\<exists>d. ctx_phonon_settings st' = Some d \<and>
        d ''supercell_matrix'' =
          Some (PyList [PyList [PyInt 2, PyInt 0, PyInt 0],
                        PyList [PyInt 0, PyInt 2, PyInt 0],
                        PyList [PyInt 0, PyInt 0, PyInt 2]]) \<and>
        d ''primitive_matrix'' =
          Some (PyList [PyList [PyFloat 1, PyFloat 0, PyFloat 0],
                        PyList [PyFloat 0, PyFloat 1, PyFloat 0],
                        PyList [PyFloat 0, PyFloat 0, PyFloat 1]]) \<and>
        d ''mesh'' = Some (PyList [PyInt 20, PyInt 20, PyInt 20]) \<and>
        d ''distance'' = Some (PyFloat 0.01) \<and>
        d ''symmetry_tolerance'' = Some (PyFloat 0.00001))"
proof -
  have sm: "inputs_cell_matrices example_inputs ''supercell_matrix'' =
              Some (IntArray \<lparr>shape = [3], flat = [2, 2, 2]\<rparr>)"
    by (simp add: example_inputs_def)
  have pm: "inputs_cell_matrices example_inputs ''primitive_matrix'' = None"
    by (simp add: example_inputs_def)
  have ps: "case inputs_phonon_settings example_inputs of None \<Rightarrow> True
            | Some d0 \<Rightarrow> d0 ''mesh'' = None"
    by (simp add: example_inputs_def)
  have rank: "\<not> (ravel_len (IntArray \<lparr>shape = [3], flat = [2, 2, 2]\<rparr>) = 3 \<and>
       length (array_shape (IntArray \<lparr>shape = [3], flat = [2, 2, 2]\<rparr>)) \<noteq> 1 \<and>
       length (array_shape (IntArray \<lparr>shape = [3], flat = [2, 2, 2]\<rparr>)) \<noteq> 2)"
    by simp
  have int: "is_integer_dtype (IntArray \<lparr>shape = [3], flat = [2, 2, 2]\<rparr>)"
    by simp
  from check_settings_integer [OF sm rank int, of initial_state] obtain d0 where
    r: "check_settings example_inputs initial_state = Inr (initial_state\<lparr>ctx_phonon_settings := Some d0\<rparr>)"
    by (auto simp: example_inputs_def)
  from check_settings_normalizes [OF r] sm pm ps obtain d where
    "ctx_phonon_settings (initial_state\<lparr>ctx_phonon_settings := Some d0\<rparr>) = Some d"
    "d ''supercell_matrix'' =
          Some (PyList [PyList [PyInt 2, PyInt 0, PyInt 0],
                        PyList [PyInt 0, PyInt 2, PyInt 0],
                        PyList [PyInt 0, PyInt 0, PyInt 2]])"
    "d ''primitive_matrix'' =
          Some (PyList [PyList [PyFloat 1, PyFloat 0, PyFloat 0],
                        PyList [PyFloat 0, PyFloat 1, PyFloat 0],
                        PyList [PyFloat 0, PyFloat 0, PyFloat 1]])"
    "d ''mesh'' = Some (PyList [PyInt 20, PyInt 20, PyInt 20])"
    "d ''distance'' = Some (PyFloat (inputs_distance example_inputs))"
    "d ''symmetry_tolerance'' = Some (PyFloat (inputs_symmetry_tolerance example_inputs))"
    by blast
  moreover have "inputs_distance example_inputs = 0.01"
    "inputs_symmetry_tolerance example_inputs = 0.00001"
    by (simp_all add: example_inputs_def)
  ultimately show ?thesis using r by auto
qed


text \<open>
  Claim C8 says that a \<open>supercell_matrix\<close> given as 3 numbers becomes the 3x3 diagonal
  matrix of those numbers. The code tests \<open>len(dim.ravel()) == 3\<close>, which holds of every
  array of three numbers, and then calls \<open>np.diag(dim)\<close> on the array itself, not on
  \<open>dim.ravel()\<close>. For the three numbers 2, 3, 4 given in a row (shape \<open>(1, 3)\<close>),
  \<open>np.diag\<close> extracts the diagonal of a 1x3 matrix: \<open>check_settings\<close> completes and stores
  the one-element list \<open>[2]\<close> as \<open>supercell_matrix\<close>, not the diagonal matrix. The other
  settings are as the claim says.
\<close>

theorem check_settings_row_supercell:
  "inputs_cell_matrices row_supercell_inputs ''supercell_matrix'' =
     Some (IntArray \<lparr>shape = [1, 3], flat = [2, 3, 4]\<rparr>) \<and>
   ravel_len (IntArray \<lparr>shape = [1, 3], flat = [2, 3, 4]\<rparr>) = 3 \<and>
   \<not> isl (check_settings row_supercell_inputs initial_state) \<and>
   ctx_phonon_settings (projr (check_settings row_supercell_inputs initial_state)) \<noteq> None \<and>
   the (ctx_phonon_settings (projr (check_settings row_supercell_inputs initial_state)))
       ''supercell_matrix'' = Some (PyList [PyInt 2]) \<and>
   the (ctx_phonon_settings (projr (check_settings row_supercell_inputs initial_state)))
       ''supercell_matrix'' \<noteq>
     Some (PyList [PyList [PyInt 2, PyInt 0, PyInt 0],
                   PyList [PyInt 0, PyInt 3, PyInt 0],
                   PyList [PyInt 0, PyInt 0, PyInt 4]]) \<and>
   the (ctx_phonon_settings (projr (check_settings row_supercell_inputs initial_state)))
       ''mesh'' = Some (PyList [PyInt 20, PyInt 20, PyInt 20]) \<and>
   the (ctx_phonon_settings (projr (check_settings row_supercell_inputs initial_state)))
       ''distance'' = Some (PyFloat 0.01) \<and>
   the (ctx_phonon_settings (projr (check_settings row_supercell_inputs initial_state)))
       ''symmetry_tolerance'' = Some (PyFloat 0.00001)"
proof -
  let ?row = "IntArray \<lparr>shape = [1, 3], flat = [2, 3, 4]\<rparr>"
  have sm: "inputs_cell_matrices row_supercell_inputs ''supercell_matrix'' = Some ?row"
    by (simp add: row_supercell_inputs_def)
  have len: "ravel_len ?row = 3"
    by simp
  have rd: "(if ravel_len ?row = 3 then np_diag ?row else Inr ?row) =
              Inr (IntArray \<lparr>shape = [1], flat = [2]\<rparr>)"
    by (simp add: diag_nd_def)
  have int: "is_integer_dtype (IntArray \<lparr>shape = [1], flat = [2]\<rparr>)"
    by simp
  have ok: "\<not> (inputs_run_phonopy row_supercell_inputs \<and> inputs_remote_phonopy row_supercell_inputs \<and>
         (inputs_code_string row_supercell_inputs = None \<or> inputs_options row_supercell_inputs = None))"
    by (simp add: row_supercell_inputs_def example_inputs_def)
  have given: "inputs_phonon_settings row_supercell_inputs = None"
    "inputs_distance row_supercell_inputs = 0.01"
    "inputs_symmetry_tolerance row_supercell_inputs = 0.00001"
    by (simp_all add: row_supercell_inputs_def example_inputs_def)
  note r = check_settings_accepts [OF sm rd int ok, of initial_state]
  have completes: "\<not> isl (check_settings row_supercell_inputs initial_state)"
    by (simp add: r)
  have stored: "ctx_phonon_settings (projr (check_settings row_supercell_inputs initial_state)) \<noteq> None"
    by (simp add: r)
  have supercell:
    "the (ctx_phonon_settings (projr (check_settings row_supercell_inputs initial_state)))
       ''supercell_matrix'' = Some (PyList [PyInt 2])"
    by (simp add: r Let_def given)
  have mesh:
    "the (ctx_phonon_settings (projr (check_settings row_supercell_inputs initial_state)))
       ''mesh'' = Some (PyList [PyInt 20, PyInt 20, PyInt 20])"
    by (simp add: r Let_def given)
  have distance:
    "the (ctx_phonon_settings (projr (check_settings row_supercell_inputs initial_state)))
       ''distance'' = Some (PyFloat 0.01)"
    by (simp add: r Let_def given)
  have tolerance:
    "the (ctx_phonon_settings (projr (check_settings row_supercell_inputs initial_state)))
       ''symmetry_tolerance'' = Some (PyFloat 0.00001)"
    by (simp add: r Let_def given)
  from sm len completes stored supercell mesh distance tolerance show ?thesis
    by simp
qed

lemma collect_forces_present:
  assumes "\<forall>i \<in> set is. calcs i \<noteq> None"
  shows "collect_forces calcs is forces =
     Inr (forces @ List.map_filter
            (\<lambda>i. case calcs i of None \<Rightarrow> None | Some node \<Rightarrow> final_forces node) is)"
  using assms
proof (induction "is" arbitrary: forces)
  case Nil
  then show ?case by (simp add: map_filter_simps)
next
  case (Cons i rest)
  from Cons.prems obtain node where node: "calcs i = Some node" by auto
  from Cons.prems have rest: "\<forall>i \<in> set rest. calcs i \<noteq> None" by simp
  show ?case
  proof (cases "final_forces node")
    case None
    then have "collect_forces calcs (i # rest) forces = collect_forces calcs rest forces"
      by (auto simp: node final_forces_def split: option.splits)
    with Cons.IH [OF rest] None node show ?thesis
      by (simp add: map_filter_simps)
  next
    case (Some final)
    then have "collect_forces calcs (i # rest) forces = collect_forces calcs rest (forces @ [final])"
      by (auto simp: node final_forces_def split: option.splits)
    with Cons.IH [OF rest] Some node show ?thesis
      by (simp add: map_filter_simps)
  qed
qed

lemma collect_forces_retrievable:
  assumes "\<forall>i < n. calcs i \<noteq> None"
  shows "collect_forces calcs [0..<n] [] = Inr (retrievable_forces calcs n)"
proof -
  from assms have "\<forall>i \<in> set [0..<n]. calcs i \<noteq> None" by simp
  from collect_forces_present [OF this, of "[]"] show ?thesis
    by (simp add: retrievable_forces_def)
qed

text \<open>
  Claim C6. With the displacement dataset in the context and a calculation stored for
  each displacement (as \<open>run_force_and_nac_calculations\<close> leaves them), \<open>create_force_sets\<close>
  raises \<open>RuntimeError\<close> if and only if the number of retrievable force arrays is not the
  recorded number of displacements; otherwise it completes and stores force sets made of
  the dataset and of exactly those arrays, in the order of the displacements.
\<close>

theorem create_force_sets_retrievable:
  assumes ds: "ctx_disp_dataset st = Some ds"
    and calcs: "\<forall>i < nat (number_of_displacements ds). ctx_structure st i \<noteq> None"
  shows "(create_force_sets inputs st = Inl RuntimeError \<longleftrightarrow>
            int (length (retrievable_forces (ctx_structure st) (nat (number_of_displacements ds)))) \<noteq>
              number_of_displacements ds) \<and>
         (int (length (retrievable_forces (ctx_structure st) (nat (number_of_displacements ds)))) =
              number_of_displacements ds \<longrightarrow>
            create_force_sets inputs st =
              Inr (st\<lparr>ctx_force_sets := Some
                     \<lparr>fs_data_sets = data_sets ds,
                      fs_forces = retrievable_forces (ctx_structure st)
                                    (nat (number_of_displacements ds))\<rparr>\<rparr>))"
  using ds collect_forces_retrievable [OF calcs]
  by (simp add: create_force_sets_def)

lemma retrievable_forces_example:
  "retrievable_forces (ctx_structure example_state) 2 =
     [FloatArray \<lparr>shape = [1, 3], flat = [1, 0, 0]\<rparr>, FloatArray \<lparr>shape = [1, 3], flat = [0, 1, 0]\<rparr>]"
proof -
  have "[0..<2] = [0, 1]" by (simp add: upt_rec)
  then show ?thesis
    by (simp add: retrievable_forces_def example_state_def example_forces_def final_forces_def
        map_filter_simps)
qed

theorem create_force_sets_retrievable_witness:
  "ctx_disp_dataset example_state =
     Some \<lparr>data_sets = OpaqueData 5, number_of_displacements = 2,
           supercells = [0 \<mapsto> StructureData 10, 1 \<mapsto> StructureData 11]\<rparr> \<and>
   ctx_structure example_state 0 \<noteq> None \<and> ctx_structure example_state 1 \<noteq> None \<and>
   create_force_sets example_inputs example_state =
     Inr (example_state\<lparr>ctx_force_sets := Some
            \<lparr>fs_data_sets = OpaqueData 5,
             fs_forces = [FloatArray \<lparr>shape = [1, 3], flat = [1, 0, 0]\<rparr>,
                          FloatArray \<lparr>shape = [1, 3], flat = [0, 1, 0]\<rparr>]\<rparr>\<rparr>)"
proof -
  let ?ds = "\<lparr>data_sets = OpaqueData 5, number_of_displacements = 2,
           supercells = [0 \<mapsto> StructureData 10, 1 \<mapsto> StructureData 11]\<rparr>"
  have ds: "ctx_disp_dataset example_state = Some ?ds"
    by (simp add: example_state_def)
  have c0: "ctx_structure example_state 0 \<noteq> None" and c1: "ctx_structure example_state 1 \<noteq> None"
    by (simp_all add: example_state_def)
  have calcs: "\<forall>i < nat (number_of_displacements ?ds). ctx_structure example_state i \<noteq> None"
  proof (intro allI impI)
    fix i :: nat assume "i < nat (number_of_displacements ?ds)"
    then have "i = 0 \<or> i = 1" by auto
    with c0 c1 show "ctx_structure example_state i \<noteq> None" by auto
  qed
  from create_force_sets_retrievable [OF ds calcs, of example_inputs] retrievable_forces_example
  have "create_force_sets example_inputs example_state =
     Inr (example_state\<lparr>ctx_force_sets := Some
            \<lparr>fs_data_sets = OpaqueData 5,
             fs_forces = [FloatArray \<lparr>shape = [1, 3], flat = [1, 0, 0]\<rparr>,
                          FloatArray \<lparr>shape = [1, 3], flat = [0, 1, 0]\<rparr>]\<rparr>\<rparr>)"
    by simp
  with ds c0 c1 show ?thesis by blast
qed

lemma create_phonopy_builder_neither:
  assumes "inputs_code_string inputs = Some code_string"
    and "inputs_options inputs = Some opts"
    and "get_builder ext code_string = Inr builder0"
    and "ctx_final_structure st = Some s"
    and "ctx_phonon_settings st = Some parameters"
    and "ctx_force_sets st = None" and "ctx_force_constants st = None"
  shows "create_phonopy_builder ext inputs st = Inl RuntimeError"
  using assms by (simp add: create_phonopy_builder_def Let_def)

lemma create_phonopy_builder_stores:
  assumes "inputs_code_string inputs = Some code_string"
    and "inputs_options inputs = Some opts"
    and "get_builder ext code_string = Inr builder0"
    and "ctx_final_structure st = Some s"
    and "ctx_phonon_settings st = Some parameters"
    and "ctx_force_sets st \<noteq> None \<or> ctx_force_constants st \<noteq> None"
  shows "create_phonopy_builder ext inputs st =
     Inr (st\<lparr>ctx_phonopy_builder := Some
       (builder0
          \<lparr>builder_structure := Some s,
           builder_parameters := Some parameters,
           builder_options := Some opts,
           builder_force_constants :=
             (case ctx_force_constants st of Some fc \<Rightarrow> Some fc
              | None \<Rightarrow> builder_force_constants builder0),
           builder_force_sets :=
             (case ctx_force_constants st of Some fc \<Rightarrow> builder_force_sets builder0
              | None \<Rightarrow> (case ctx_force_sets st of Some fs \<Rightarrow> Some fs
                         | None \<Rightarrow> builder_force_sets builder0)),
           builder_nac_data :=
             (case ctx_nac_data st of Some nac \<Rightarrow> Some nac | None \<Rightarrow> builder_nac_data builder0),
           builder_bands :=
             (case ctx_band_paths st of Some bands \<Rightarrow> Some bands
              | None \<Rightarrow> builder_bands builder0)\<rparr>)\<rparr>)"
  using assms
  by (auto simp: create_phonopy_builder_def Let_def split: option.splits)

text \<open>
  Claim C7. Where \<open>create_phonopy_builder\<close> runs, \<open>check_settings\<close> has seen to it that
  \<open>code_string\<close> and \<open>options\<close> are among the inputs, and the steps before have put the
  final structure and the phonon settings into the context; let moreover the code of
  \<open>code_string\<close> exist, so that it gives a builder. Then the step raises \<open>RuntimeError\<close>
  when neither \<open>force_sets\<close> nor \<open>force_constants\<close> is in the context. When one of them
  is, it completes and stores a builder with the final structure, the phonon settings and
  the options, with the force constants when they are in the context and else the force
  sets, and with the NAC data and the band paths when they are in the context.
\<close>

theorem create_phonopy_builder_checks:
  assumes "inputs_code_string inputs = Some code_string"
    and "inputs_options inputs = Some opts"
    and "get_builder ext code_string = Inr builder0"
    and "ctx_final_structure st = Some s"
    and "ctx_phonon_settings st = Some parameters"
  shows "(ctx_force_sets st = None \<and> ctx_force_constants st = None \<longrightarrow>
            create_phonopy_builder ext inputs st = Inl RuntimeError) \<and>
         (ctx_force_sets st \<noteq> None \<or> ctx_force_constants st \<noteq> None \<longrightarrow>
            (\<exists>b. create_phonopy_builder ext inputs st = Inr (st\<lparr>ctx_phonopy_builder := Some b\<rparr>) \<and>
                 builder_structure b = Some s \<and>
                 builder_parameters b = Some parameters \<and>
                 builder_options b = Some opts \<and>
                 (\<forall>fc. ctx_force_constants st = Some fc \<longrightarrow> builder_force_constants b = Some fc) \<and>
                 (\<forall>fs. ctx_force_constants st = None \<and> ctx_force_sets st = Some fs \<longrightarrow>
                    builder_force_sets b = Some fs) \<and>
                 (\<forall>nac. ctx_nac_data st = Some nac \<longrightarrow> builder_nac_data b = Some nac) \<and>
                 (\<forall>bands. ctx_band_paths st = Some bands \<longrightarrow> builder_bands b = Some bands)))"
proof (intro conjI impI)
  assume "ctx_force_sets st = None \<and> ctx_force_constants st = None"
  with assms show "create_phonopy_builder ext inputs st = Inl RuntimeError"
    by (simp add: create_phonopy_builder_neither)
next
  assume present: "ctx_force_sets st \<noteq> None \<or> ctx_force_constants st \<noteq> None"
  show "\<exists>b. create_phonopy_builder ext inputs st = Inr (st\<lparr>ctx_phonopy_builder := Some b\<rparr>) \<and>
                 builder_structure b = Some s \<and>
                 builder_parameters b = Some parameters \<and>
                 builder_options b = Some opts \<and>
                 (\<forall>fc. ctx_force_constants st = Some fc \<longrightarrow> builder_force_constants b = Some fc) \<and>
                 (\<forall>fs. ctx_force_constants st = None \<and> ctx_force_sets st = Some fs \<longrightarrow>
                    builder_force_sets b = Some fs) \<and>
                 (\<forall>nac. ctx_nac_data st = Some nac \<longrightarrow> builder_nac_data b = Some nac) \<and>
                 (\<forall>bands. ctx_band_paths st = Some bands \<longrightarrow> builder_bands b = Some bands)"
    unfolding create_phonopy_builder_stores [OF assms present]
    by (intro exI conjI) (rule refl, simp_all)
qed

theorem create_phonopy_builder_checks_witness:
  "inputs_code_string remote_inputs = Some ''phonopy@localhost'' \<and>
   inputs_options remote_inputs = Some Map.empty \<and>
   get_builder example_externals ''phonopy@localhost'' = Inr empty_builder \<and>
   ctx_final_structure (example_state\<lparr>ctx_force_sets := Some example_force_sets\<rparr>) =
     Some (StructureData 1) \<and>
   (\<exists>b. create_phonopy_builder example_externals remote_inputs
           (example_state\<lparr>ctx_force_sets := Some example_force_sets\<rparr>) =
           Inr (example_state\<lparr>ctx_force_sets := Some example_force_sets,
                              ctx_phonopy_builder := Some b\<rparr>) \<and>
        builder_structure b = Some (StructureData 1) \<and>
        builder_options b = Some Map.empty \<and>
        builder_force_sets b = Some example_force_sets) \<and>
   create_phonopy_builder example_externals remote_inputs example_state = Inl RuntimeError"
proof -
  let ?st = "example_state\<lparr>ctx_force_sets := Some example_force_sets\<rparr>"
  have h1: "inputs_code_string remote_inputs = Some ''phonopy@localhost''"
    and h2: "inputs_options remote_inputs = Some Map.empty"
    by (simp_all add: remote_inputs_def)
  have h3: "get_builder example_externals ''phonopy@localhost'' = Inr empty_builder"
    by (simp add: example_externals_def)
  have h4: "ctx_final_structure ?st = Some (StructureData 1)"
    and h5: "ctx_phonon_settings ?st = Some [''mesh'' \<mapsto> PyList [PyInt 20, PyInt 20, PyInt 20]]"
    and h4': "ctx_final_structure example_state = Some (StructureData 1)"
    and h5': "ctx_phonon_settings example_state = Some [''mesh'' \<mapsto> PyList [PyInt 20, PyInt 20, PyInt 20]]"
    by (simp_all add: example_state_def)
  have fs: "ctx_force_sets ?st = Some example_force_sets" "ctx_force_constants ?st = None"
    by (simp_all add: example_state_def initial_state_def)
  have none: "ctx_force_sets example_state = None \<and> ctx_force_constants example_state = None"
    by (simp add: example_state_def initial_state_def)
  from create_phonopy_builder_checks [OF h1 h2 h3 h4 h5] fs
  obtain b where
    "create_phonopy_builder example_externals remote_inputs ?st = Inr (?st\<lparr>ctx_phonopy_builder := Some b\<rparr>)"
    "builder_structure b = Some (StructureData 1)"
    "builder_options b = Some Map.empty"
    "builder_force_sets b = Some example_force_sets"
    by auto
  moreover from create_phonopy_builder_checks [OF h1 h2 h3 h4' h5'] none
  have "create_phonopy_builder example_externals remote_inputs example_state = Inl RuntimeError"
    by blast
  ultimately show ?thesis using h1 h2 h3 h4 by auto
qed

lemma run_steps_append:
  "run_steps behaviour inputs (ss @ ts) st =
     (case run_steps behaviour inputs ss st of
        (started, Inl e) \<Rightarrow> (started, Inl e)
      | (started, Inr st') \<Rightarrow>
          (case run_steps behaviour inputs ts st' of
             (started', result) \<Rightarrow> (started @ started', result)))"
  by (induction ss arbitrary: st) (auto split: sum.splits prod.splits)

lemma run_instructions_scheduled:
  "run_instruction behaviour inputs x st = run_steps behaviour inputs (scheduled_instruction inputs x) st"
  "run_instructions behaviour inputs xs st = run_steps behaviour inputs (scheduled inputs xs) st"
proof (induction behaviour inputs x st and behaviour inputs xs st
    rule: run_instruction_run_instructions.induct)
  case (1 behaviour inputs s st)
  then show ?case by (simp split: sum.splits)
next
  case (2 behaviour inputs p body other st)
  then show ?case by simp
next
  case (3 behaviour inputs st)
  then show ?case by simp
next
  case (4 behaviour inputs x xs st)
  show ?case
  proof (cases "run_instruction behaviour inputs x st")
    case (Pair started result)
    show ?thesis
    proof (cases result)
      case (Inl e)
      with Pair "4.IH"(1) show ?thesis
        by (simp add: run_steps_append)
    next
      case (Inr st')
      with Pair "4.IH"(1) "4.IH"(2) [OF Pair [symmetric] Inr] show ?thesis
        by (simp add: run_steps_append)
    qed
  qed
qed

lemma run_steps_started_prefix:
  "prefix (fst (run_steps behaviour inputs ss st)) ss"
proof (induction ss arbitrary: st)
  case Nil
  then show ?case by simp
next
  case (Cons s ss)
  show ?case
  proof (cases "behaviour s inputs st")
    case (Inl e)
    then show ?thesis by simp
  next
    case (Inr st1)
    obtain started result where run: "run_steps behaviour inputs ss st1 = (started, result)"
      by (cases "run_steps behaviour inputs ss st1")
    with Cons.IH [of st1] have "prefix started ss" by simp
    with Inr run show ?thesis by simp
  qed
qed

lemma run_steps_completed:
  "run_steps behaviour inputs ss st = (started, Inr st') \<Longrightarrow> started = ss"
  by (induction ss arbitrary: st started) (auto split: sum.splits prod.splits)

lemma scheduled_outline:
  "scheduled inputs outline =
     [Check_settings] @
     (if inputs_optimize inputs then [Optimize] else []) @
     [Set_unitcell, Create_displacements, Run_force_and_nac_calculations, Create_force_sets] @
     (if inputs_is_nac inputs then [Create_nac_params] else []) @
     [Set_default_outputs, Prepare_phonopy_inputs] @
     (if inputs_run_phonopy inputs
      then (if inputs_remote_phonopy inputs
            then [Create_phonopy_builder, Run_phonopy_remote, Collect_data]
            else [Run_phonopy_in_workchain])
      else [])"
  by (simp add: outline_def use_optimize_def is_nac_def run_phonopy_def remote_phonopy_def)

lemma remote_run_evaluated:
  "(case run_workchain example_externals remote_inputs of
      (started, Inl e) \<Rightarrow> False
    | (started, Inr st) \<Rightarrow>
        started = [Check_settings, Optimize, Set_unitcell, Create_displacements,
                   Run_force_and_nac_calculations, Create_force_sets, Set_default_outputs,
                   Prepare_phonopy_inputs, Create_phonopy_builder, Run_phonopy_remote,
                   Collect_data])"
  by code_simp

lemma remote_run_completes:
  "\<exists>st'. run_workchain example_externals remote_inputs =
     ([Check_settings, Optimize, Set_unitcell, Create_displacements,
       Run_force_and_nac_calculations, Create_force_sets, Set_default_outputs,
       Prepare_phonopy_inputs, Create_phonopy_builder, Run_phonopy_remote, Collect_data],
      Inr st')"
  using remote_run_evaluated
  by (cases "run_workchain example_externals remote_inputs") (auto split: sum.splits)

lemma default_run_evaluated:
  "(case run_workchain example_externals example_inputs of
      (started, Inl e) \<Rightarrow> False
    | (started, Inr st) \<Rightarrow>
        started = [Check_settings, Optimize, Set_unitcell, Create_displacements,
                   Run_force_and_nac_calculations, Create_force_sets, Set_default_outputs,
                   Prepare_phonopy_inputs] \<and>
        outputs st ''force_constants'' = None \<and> outputs st ''dos'' = None \<and>
        outputs st ''thermal_properties'' = None \<and> outputs st ''band_structure'' = None)"
  by code_simp

text \<open>
  Claim C2. Of the four steps of the phonon calculation, a run starts, in this order and
  as far as it gets: \<open>create_phonopy_builder\<close>, \<open>run_phonopy_remote\<close> and \<open>collect_data\<close>
  when \<open>run_phonopy\<close> and \<open>remote_phonopy\<close> are true; only \<open>run_phonopy_in_workchain\<close> when
  \<open>run_phonopy\<close> is true and \<open>remote_phonopy\<close> is false; none when \<open>run_phonopy\<close> is false.
  A run that completes has started all of them. This holds whatever the steps do.
\<close>

theorem outline_phonopy_branch:
  "(inputs_run_phonopy inputs \<and> inputs_remote_phonopy inputs \<longrightarrow>
      prefix (phonopy_steps (fst (run_instructions behaviour inputs outline st)))
        [Create_phonopy_builder, Run_phonopy_remote, Collect_data] \<and>
      (\<forall>st'. snd (run_instructions behaviour inputs outline st) = Inr st' \<longrightarrow>
         phonopy_steps (fst (run_instructions behaviour inputs outline st)) =
           [Create_phonopy_builder, Run_phonopy_remote, Collect_data])) \<and>
   (inputs_run_phonopy inputs \<and> \<not> inputs_remote_phonopy inputs \<longrightarrow>
      prefix (phonopy_steps (fst (run_instructions behaviour inputs outline st)))
        [Run_phonopy_in_workchain] \<and>
      (\<forall>st'. snd (run_instructions behaviour inputs outline st) = Inr st' \<longrightarrow>
         phonopy_steps (fst (run_instructions behaviour inputs outline st)) =
           [Run_phonopy_in_workchain])) \<and>
   (\<not> inputs_run_phonopy inputs \<longrightarrow>
      phonopy_steps (fst (run_instructions behaviour inputs outline st)) = [])"
proof -
  let ?ss = "scheduled inputs outline"
  let ?started = "fst (run_instructions behaviour inputs outline st)"
  have run: "run_instructions behaviour inputs outline st = run_steps behaviour inputs ?ss st"
    by (rule run_instructions_scheduled)
  have "prefix ?started ?ss"
    by (simp only: run run_steps_started_prefix)
  then have pre: "prefix (phonopy_steps ?started) (phonopy_steps ?ss)"
    unfolding phonopy_steps_def by (rule filter_mono_prefix)
  have full: "phonopy_steps ?started = phonopy_steps ?ss"
    if "snd (run_instructions behaviour inputs outline st) = Inr st'" for st'
  proof -
    from that have "run_steps behaviour inputs ?ss st = (?started, Inr st')"
      by (simp add: run prod_eq_iff)
    then have "?started = ?ss" by (rule run_steps_completed)
    then show ?thesis by simp
  qed
  have remote: "phonopy_steps ?ss = [Create_phonopy_builder, Run_phonopy_remote, Collect_data]"
    if "inputs_run_phonopy inputs \<and> inputs_remote_phonopy inputs"
    using that by (simp add: scheduled_outline phonopy_steps_def)
  have local: "phonopy_steps ?ss = [Run_phonopy_in_workchain]"
    if "inputs_run_phonopy inputs \<and> \<not> inputs_remote_phonopy inputs"
    using that by (simp add: scheduled_outline phonopy_steps_def)
  have none: "phonopy_steps ?ss = []" if "\<not> inputs_run_phonopy inputs"
    using that by (simp add: scheduled_outline phonopy_steps_def)
  from pre full remote local none show ?thesis
    by (metis prefix_Nil)
qed

theorem outline_phonopy_branch_witness:
  "inputs_run_phonopy remote_inputs \<and> inputs_remote_phonopy remote_inputs \<and>
   (\<exists>st'. snd (run_instructions (step_method example_externals) remote_inputs outline initial_state) =
           Inr st') \<and>
   phonopy_steps (fst (run_instructions (step_method example_externals) remote_inputs outline
                         initial_state)) =
     [Create_phonopy_builder, Run_phonopy_remote, Collect_data]"
proof -
  have h: "inputs_run_phonopy remote_inputs \<and> inputs_remote_phonopy remote_inputs"
    by (simp add: remote_inputs_def)
  from remote_run_completes obtain st' where
    "snd (run_instructions (step_method example_externals) remote_inputs outline initial_state) = Inr st'"
    by (auto simp: run_workchain_def)
  with outline_phonopy_branch [of remote_inputs "step_method example_externals" initial_state] h
  show ?thesis by blast
qed

subsection \<open>What each step leaves alone\<close>

lemma check_settings_frame:
  assumes "check_settings inputs st = Inr st'"
  shows "outputs st' = outputs st" "ctx_optimized st' = ctx_optimized st"
    "ctx_final_structure st' = ctx_final_structure st"
proof -
  from check_settings_completes [OF assms] obtain dims smat where
    "inputs_cell_matrices inputs ''supercell_matrix'' = Some dims"
    "(if ravel_len dims = 3 then np_diag dims else Inr dims) = Inr smat"
    "is_integer_dtype smat"
    "\<not> (inputs_run_phonopy inputs \<and> inputs_remote_phonopy inputs \<and>
         (inputs_code_string inputs = None \<or> inputs_options inputs = None))"
    by blast
  from check_settings_accepts [OF this, of st] assms
  obtain d where st': "st' = st\<lparr>ctx_phonon_settings := Some d\<rparr>"
    by (metis sum.inject(2))
  show "outputs st' = outputs st" "ctx_optimized st' = ctx_optimized st"
    "ctx_final_structure st' = ctx_final_structure st"
    by (simp_all add: st')
qed

lemma optimize_frame:
  assumes "optimize ext inputs st = Inr st'"
  shows "outputs st' = outputs st" "ctx_optimized st' \<noteq> None"
    "ctx_final_structure st' = ctx_final_structure st"
  using assms by (auto simp: optimize_def)

lemma set_unitcell_effect:
  assumes "set_unitcell inputs st = Inr st'"
  shows "ctx_optimized st' = ctx_optimized st"
    and "ctx_optimized st = None \<Longrightarrow> outputs st' = outputs st"
    and "ctx_optimized st = None \<Longrightarrow> ctx_final_structure st' = Some (inputs_structure inputs)"
    and "ctx_optimized st \<noteq> None \<Longrightarrow> ''optimized_data'' \<in> dom (outputs st')"
    and "k \<noteq> ''optimized_data'' \<Longrightarrow> outputs st' k = outputs st k"
  using assms by (auto simp: set_unitcell_def split: option.splits)

lemma create_displacements_frame:
  assumes "create_displacements ext inputs st = Inr st'"
  shows "outputs st' = outputs st" "ctx_optimized st' = ctx_optimized st"
    "ctx_final_structure st' = ctx_final_structure st"
  using assms by (auto simp: create_displacements_def Let_def split: option.splits sum.splits)

lemma run_force_and_nac_calculations_frame:
  assumes "run_force_and_nac_calculations ext inputs st = Inr st'"
  shows "outputs st' = outputs st" "ctx_optimized st' = ctx_optimized st"
    "ctx_final_structure st' = ctx_final_structure st"
  using assms
  by (auto simp: run_force_and_nac_calculations_def split: option.splits sum.splits if_splits)

lemma create_force_sets_frame:
  assumes "create_force_sets inputs st = Inr st'"
  shows "outputs st' = outputs st" "ctx_optimized st' = ctx_optimized st"
    "ctx_final_structure st' = ctx_final_structure st"
  using assms by (auto simp: create_force_sets_def split: option.splits sum.splits if_splits)

lemma create_nac_params_frame:
  assumes "create_nac_params ext inputs st = Inr st'"
  shows "outputs st' = outputs st" "ctx_optimized st' = ctx_optimized st"
    "ctx_final_structure st' = ctx_final_structure st"
  using assms by (auto simp: create_nac_params_def split: option.splits sum.splits)

lemma set_default_outputs_frame:
  assumes "set_default_outputs inputs st = Inr st'"
  shows "k \<noteq> ''final_structure'' \<Longrightarrow> k \<noteq> ''force_sets'' \<Longrightarrow> k \<noteq> ''nac_data'' \<Longrightarrow>
           outputs st' k = outputs st k"
    and "ctx_optimized st' = ctx_optimized st"
    and "ctx_final_structure st' = ctx_final_structure st"
  using assms by (auto simp: set_default_outputs_def Let_def split: option.splits)

lemma prepare_phonopy_inputs_frame:
  assumes "prepare_phonopy_inputs ext inputs st = Inr st'"
  shows "outputs st' = outputs st" "ctx_optimized st' = ctx_optimized st"
    "ctx_final_structure st' = ctx_final_structure st"
  using assms by (auto simp: prepare_phonopy_inputs_def split: option.splits sum.splits)

lemma create_phonopy_builder_frame:
  assumes "create_phonopy_builder ext inputs st = Inr st'"
  shows "outputs st' = outputs st" "ctx_optimized st' = ctx_optimized st"
    "ctx_final_structure st' = ctx_final_structure st"
proof -
  from assms have "\<exists>b. st' = st\<lparr>ctx_phonopy_builder := Some b\<rparr>"
    by (auto simp: create_phonopy_builder_def Let_def split: option.splits sum.splits if_splits)
  then show "outputs st' = outputs st" "ctx_optimized st' = ctx_optimized st"
    "ctx_final_structure st' = ctx_final_structure st"
    by auto
qed

lemma run_phonopy_remote_frame:
  assumes "run_phonopy_remote ext inputs st = Inr st'"
  shows "outputs st' = outputs st" "ctx_optimized st' = ctx_optimized st"
    "ctx_final_structure st' = ctx_final_structure st"
  using assms by (auto simp: run_phonopy_remote_def split: option.splits)

lemma run_phonopy_in_workchain_effect:
  assumes "run_phonopy_in_workchain ext inputs st = Inr st'"
  shows "{''force_constants'', ''thermal_properties'', ''dos'', ''band_structure''} \<subseteq> dom (outputs st')"
    and "outputs st' ''optimized_data'' = outputs st ''optimized_data''"
    and "ctx_optimized st' = ctx_optimized st"
    and "ctx_final_structure st' = ctx_final_structure st"
  using assms by (auto simp: run_phonopy_in_workchain_def split: sum.splits)

lemma collect_data_effect:
  assumes "collect_data inputs st = Inr st'"
  shows "{''force_constants'', ''thermal_properties'', ''dos'', ''band_structure''} \<subseteq> dom (outputs st')"
    and "outputs st' ''optimized_data'' = outputs st ''optimized_data''"
    and "ctx_optimized st' = ctx_optimized st"
    and "ctx_final_structure st' = ctx_final_structure st"
  using assms by (auto simp: collect_data_def split: option.splits)

lemmas step_frames =
  check_settings_frame optimize_frame set_unitcell_effect create_displacements_frame
  run_force_and_nac_calculations_frame create_force_sets_frame create_nac_params_frame
  set_default_outputs_frame prepare_phonopy_inputs_frame create_phonopy_builder_frame
  run_phonopy_remote_frame run_phonopy_in_workchain_effect collect_data_effect

lemma step_keeps_optimized_data:
  assumes "step_method ext s inputs st = Inr st'" and "s \<noteq> Set_unitcell"
  shows "outputs st' ''optimized_data'' = outputs st ''optimized_data''"
  using assms by (cases s) (simp_all add: step_frames)

lemma step_keeps_phonon_outputs:
  assumes "step_method ext s inputs st = Inr st'"
    and "s \<noteq> Collect_data" and "s \<noteq> Run_phonopy_in_workchain"
    and "k \<in> {''force_constants'', ''thermal_properties'', ''dos'', ''band_structure''}"
  shows "outputs st' k = outputs st k"
  using assms by (cases s) (auto simp: step_frames)

lemma step_keeps_optimized:
  assumes "step_method ext s inputs st = Inr st'" and "s \<noteq> Optimize"
  shows "ctx_optimized st' = ctx_optimized st"
  using assms by (cases s) (simp_all add: step_frames)

lemma step_keeps_final_structure:
  assumes "step_method ext s inputs st = Inr st'" and "s \<noteq> Set_unitcell"
  shows "ctx_final_structure st' = ctx_final_structure st"
  using assms by (cases s) (simp_all add: step_frames)

subsection \<open>Runs\<close>

lemma run_steps_Cons_completed:
  assumes "run_steps behaviour inputs (s # ss) st = (started, Inr st')"
  obtains st1 where "behaviour s inputs st = Inr st1"
    and "run_steps behaviour inputs ss st1 = (ss, Inr st')"
proof -
  from assms obtain st1 where m: "behaviour s inputs st = Inr st1"
    by (cases "behaviour s inputs st") auto
  with assms obtain tr where r: "run_steps behaviour inputs ss st1 = (tr, Inr st')"
    by (cases "run_steps behaviour inputs ss st1") auto
  from run_steps_completed [OF r] r have "run_steps behaviour inputs ss st1 = (ss, Inr st')"
    by simp
  with m that show ?thesis by blast
qed

lemma run_steps_preserves:
  assumes "run_steps behaviour inputs ss st = (started, Inr st')"
    and "\<And>s st st'. s \<in> set ss \<Longrightarrow> behaviour s inputs st = Inr st' \<Longrightarrow> f st' = f st"
  shows "f st' = f st"
  using assms
proof (induction ss arbitrary: st started)
  case Nil
  then show ?case by simp
next
  case (Cons s ss)
  from run_steps_Cons_completed [OF Cons.prems(1)] obtain st1 where
    m: "behaviour s inputs st = Inr st1" and r: "run_steps behaviour inputs ss st1 = (ss, Inr st')"
    by blast
  have "f st' = f st1"
  proof (rule Cons.IH [OF r])
    fix t u u' assume "t \<in> set ss" and "behaviour t inputs u = Inr u'"
    then show "f u' = f u" using Cons.prems(2) [of t u u'] by simp
  qed
  moreover have "f st1 = f st"
    by (rule Cons.prems(2) [OF _ m]) simp
  ultimately show ?case by simp
qed

lemma optimized_only_after_optimize:
  assumes "run_steps (step_method ext) inputs ss st = (started, Inr st')"
    and "ctx_optimized st \<noteq> None \<longrightarrow> Optimize \<in> A"
    and "''optimized_data'' \<in> dom (outputs st) \<longrightarrow> Optimize \<in> A"
  shows "(ctx_optimized st' \<noteq> None \<longrightarrow> Optimize \<in> A \<union> set started) \<and>
         (''optimized_data'' \<in> dom (outputs st') \<longrightarrow> Optimize \<in> A \<union> set started)"
  using assms
proof (induction ss arbitrary: st started A)
  case Nil
  then show ?case by auto
next
  case (Cons s ss)
  from run_steps_completed [OF Cons.prems(1)] have started: "started = s # ss" .
  from run_steps_Cons_completed [OF Cons.prems(1)] obtain st1 where
    m: "step_method ext s inputs st = Inr st1"
    and r: "run_steps (step_method ext) inputs ss st1 = (ss, Inr st')"
    by blast
  have a: "ctx_optimized st1 \<noteq> None \<longrightarrow> Optimize \<in> insert s A"
    using step_keeps_optimized [OF m] Cons.prems(2) by (cases "s = Optimize") auto
  have b: "''optimized_data'' \<in> dom (outputs st1) \<longrightarrow> Optimize \<in> insert s A"
  proof (cases "s = Set_unitcell")
    case True
    with m have su: "set_unitcell inputs st = Inr st1" by simp
    show ?thesis
    proof (cases "ctx_optimized st")
      case None
      from set_unitcell_effect(2) [OF su None] Cons.prems(3) show ?thesis by simp
    next
      case (Some node)
      with Cons.prems(2) show ?thesis by simp
    qed
  next
    case False
    from step_keeps_optimized_data [OF m False] Cons.prems(3) show ?thesis
      by (auto simp: domIff)
  qed
  from Cons.IH [OF r a b] started show ?case by simp
qed

lemma run_steps_snoc_completed:
  assumes "run_steps behaviour inputs (ss @ [s]) st = (started, Inr st')"
  obtains st1 where "run_steps behaviour inputs ss st = (ss, Inr st1)"
    and "behaviour s inputs st1 = Inr st'"
proof -
  obtain tr r where run: "run_steps behaviour inputs ss st = (tr, r)"
    by (cases "run_steps behaviour inputs ss st")
  with assms obtain st1 where r: "r = Inr st1"
    by (cases r) (auto simp: run_steps_append)
  from run r run_steps_completed [of behaviour inputs ss st tr st1]
  have a: "run_steps behaviour inputs ss st = (ss, Inr st1)" by simp
  from assms a have "behaviour s inputs st1 = Inr st'"
    by (auto simp: run_steps_append split: sum.splits)
  with a that show ?thesis by blast
qed

lemma completed_run_phonon_outputs:
  assumes "run_workchain ext inputs = (started, Inr st')"
  shows "(inputs_run_phonopy inputs \<longrightarrow>
           {''force_constants'', ''thermal_properties'', ''dos'', ''band_structure''} \<subseteq>
             dom (outputs st')) \<and>
         (\<not> inputs_run_phonopy inputs \<longrightarrow>
           outputs st' ''force_constants'' = None \<and> outputs st' ''thermal_properties'' = None \<and>
           outputs st' ''dos'' = None \<and> outputs st' ''band_structure'' = None)"
proof (cases "inputs_run_phonopy inputs")
  case True
  let ?pre = "[Check_settings] @
     (if inputs_optimize inputs then [Optimize] else []) @
     [Set_unitcell, Create_displacements, Run_force_and_nac_calculations, Create_force_sets] @
     (if inputs_is_nac inputs then [Create_nac_params] else []) @
     [Set_default_outputs, Prepare_phonopy_inputs] @
     (if inputs_remote_phonopy inputs then [Create_phonopy_builder, Run_phonopy_remote] else [])"
  let ?last = "if inputs_remote_phonopy inputs then Collect_data else Run_phonopy_in_workchain"
  from True have "scheduled inputs outline = ?pre @ [?last]"
    by (simp add: scheduled_outline)
  with assms have "run_steps (step_method ext) inputs (?pre @ [?last]) initial_state = (started, Inr st')"
    by (simp only: run_workchain_def run_instructions_scheduled)
  from run_steps_snoc_completed [OF this] obtain st1 where
    "step_method ext ?last inputs st1 = Inr st'" by blast
  then have "{''force_constants'', ''thermal_properties'', ''dos'', ''band_structure''} \<subseteq>
             dom (outputs st')"
    using collect_data_effect(1) [of inputs st1 st']
      run_phonopy_in_workchain_effect(1) [of ext inputs st1 st']
    by (cases "inputs_remote_phonopy inputs") simp_all
  with True show ?thesis by simp
next
  case False
  let ?ss = "scheduled inputs outline"
  from assms have run: "run_steps (step_method ext) inputs ?ss initial_state = (started, Inr st')"
    by (simp only: run_workchain_def run_instructions_scheduled)
  from False have no: "Collect_data \<notin> set ?ss" "Run_phonopy_in_workchain \<notin> set ?ss"
    by (simp_all add: scheduled_outline)
  have "outputs st' k = outputs initial_state k"
    if k: "k \<in> {''force_constants'', ''thermal_properties'', ''dos'', ''band_structure''}" for k
  proof (rule run_steps_preserves [OF run])
    fix s st u assume "s \<in> set ?ss" and "step_method ext s inputs st = Inr u"
    with no show "outputs u k = outputs st k"
      using step_keeps_phonon_outputs [of ext s inputs st u k] k by auto
  qed
  then have "outputs st' ''force_constants'' = None \<and> outputs st' ''thermal_properties'' = None \<and>
           outputs st' ''dos'' = None \<and> outputs st' ''band_structure'' = None"
    by (simp add: initial_state_def)
  with False show ?thesis by simp
qed

text \<open>
  Claim C3 as it is stated fails: with the default inputs (\<open>run_phonopy\<close> false) and every
  step succeeding, the run completes after \<open>prepare_phonopy_inputs\<close>; no step of the phonon
  calculation is started, and none of force constants, DOS, thermal properties and band
  structure is produced.
\<close>

theorem outline_no_phonon_properties_counterexample:
  "\<not> inputs_run_phonopy example_inputs \<and>
   fst (run_workchain example_externals example_inputs) =
     [Check_settings, Optimize, Set_unitcell, Create_displacements,
      Run_force_and_nac_calculations, Create_force_sets, Set_default_outputs,
      Prepare_phonopy_inputs] \<and>
   \<not> isl (snd (run_workchain example_externals example_inputs)) \<and>
   outputs (projr (snd (run_workchain example_externals example_inputs))) ''force_constants'' = None \<and>
   outputs (projr (snd (run_workchain example_externals example_inputs))) ''dos'' = None \<and>
   outputs (projr (snd (run_workchain example_externals example_inputs))) ''thermal_properties'' = None \<and>
   outputs (projr (snd (run_workchain example_externals example_inputs))) ''band_structure'' = None"
proof -
  have "\<not> inputs_run_phonopy example_inputs"
    by (simp add: example_inputs_def)
  with default_run_evaluated show ?thesis
    by (cases "run_workchain example_externals example_inputs") (auto split: sum.splits)
qed

text \<open>
  Claim C3, as amended. In every run the steps are started in the order of the outline:
  \<open>check_settings\<close>, \<open>optimize\<close> (only if the input \<open>optimize\<close> is true), \<open>set_unitcell\<close>,
  \<open>create_displacements\<close>, \<open>run_force_and_nac_calculations\<close>, \<open>create_force_sets\<close>,
  \<open>create_nac_params\<close> (only if \<open>is_nac\<close>), \<open>set_default_outputs\<close>,
  \<open>prepare_phonopy_inputs\<close> and, only if \<open>run_phonopy\<close> is true, the phonon calculation
  (remote: \<open>create_phonopy_builder\<close>, \<open>run_phonopy_remote\<close>, \<open>collect_data\<close>; local:
  \<open>run_phonopy_in_workchain\<close>). A run that a raising step ends has started an initial
  segment of this sequence, a run that completes all of it; so no later stage is started
  before an earlier one. This holds whatever the steps do. With the methods of the class,
  a run that completes has produced force constants, thermal properties, DOS and band
  structure when \<open>run_phonopy\<close> is true, and none of them when it is false.
\<close>

theorem outline_stage_order:
  "prefix (fst (run_instructions behaviour inputs outline st))
     ([Check_settings] @
      (if inputs_optimize inputs then [Optimize] else []) @
      [Set_unitcell, Create_displacements, Run_force_and_nac_calculations, Create_force_sets] @
      (if inputs_is_nac inputs then [Create_nac_params] else []) @
      [Set_default_outputs, Prepare_phonopy_inputs] @
      (if inputs_run_phonopy inputs
       then (if inputs_remote_phonopy inputs
             then [Create_phonopy_builder, Run_phonopy_remote, Collect_data]
             else [Run_phonopy_in_workchain])
       else [])) \<and>
   (\<forall>st'. snd (run_instructions behaviour inputs outline st) = Inr st' \<longrightarrow>
      fst (run_instructions behaviour inputs outline st) =
        [Check_settings] @
        (if inputs_optimize inputs then [Optimize] else []) @
        [Set_unitcell, Create_displacements, Run_force_and_nac_calculations, Create_force_sets] @
        (if inputs_is_nac inputs then [Create_nac_params] else []) @
        [Set_default_outputs, Prepare_phonopy_inputs] @
        (if inputs_run_phonopy inputs
         then (if inputs_remote_phonopy inputs
               then [Create_phonopy_builder, Run_phonopy_remote, Collect_data]
               else [Run_phonopy_in_workchain])
         else [])) \<and>
   (\<forall>started st'. run_workchain ext inputs = (started, Inr st') \<longrightarrow>
      (inputs_run_phonopy inputs \<longrightarrow>
         {''force_constants'', ''thermal_properties'', ''dos'', ''band_structure''} \<subseteq>
           dom (outputs st')) \<and>
      (\<not> inputs_run_phonopy inputs \<longrightarrow>
         outputs st' ''force_constants'' = None \<and> outputs st' ''thermal_properties'' = None \<and>
         outputs st' ''dos'' = None \<and> outputs st' ''band_structure'' = None))"
proof -
  let ?ss = "scheduled inputs outline"
  let ?started = "fst (run_instructions behaviour inputs outline st)"
  have run: "run_instructions behaviour inputs outline st = run_steps behaviour inputs ?ss st"
    by (rule run_instructions_scheduled)
  have pre: "prefix ?started ?ss"
    by (simp only: run run_steps_started_prefix)
  have full: "?started = ?ss"
    if "snd (run_instructions behaviour inputs outline st) = Inr st'" for st'
  proof -
    from that have "run_steps behaviour inputs ?ss st = (?started, Inr st')"
      by (simp add: run prod_eq_iff)
    then show ?thesis by (rule run_steps_completed)
  qed
  have produced:
    "(inputs_run_phonopy inputs \<longrightarrow>
         {''force_constants'', ''thermal_properties'', ''dos'', ''band_structure''} \<subseteq>
           dom (outputs st')) \<and>
     (\<not> inputs_run_phonopy inputs \<longrightarrow>
         outputs st' ''force_constants'' = None \<and> outputs st' ''thermal_properties'' = None \<and>
         outputs st' ''dos'' = None \<and> outputs st' ''band_structure'' = None)"
    if "run_workchain ext inputs = (started, Inr st')" for started st'
    using that by (rule completed_run_phonon_outputs)
  from pre full produced show ?thesis
    unfolding scheduled_outline by blast
qed

theorem outline_stage_order_witness:
  "(\<exists>st'. snd (run_instructions (step_method example_externals) example_inputs outline initial_state) =
           Inr st') \<and>
   fst (run_instructions (step_method example_externals) example_inputs outline initial_state) =
     [Check_settings, Optimize, Set_unitcell, Create_displacements,
      Run_force_and_nac_calculations, Create_force_sets, Set_default_outputs,
      Prepare_phonopy_inputs]"
proof -
  from default_run_evaluated obtain st' where
    r: "snd (run_instructions (step_method example_externals) example_inputs outline initial_state) = Inr st'"
    by (cases "run_workchain example_externals example_inputs")
       (auto simp: run_workchain_def split: sum.splits)
  from outline_stage_order [of "step_method example_externals" example_inputs initial_state] r
  have "fst (run_instructions (step_method example_externals) example_inputs outline initial_state) =
        [Check_settings] @
        (if inputs_optimize example_inputs then [Optimize] else []) @
        [Set_unitcell, Create_displacements, Run_force_and_nac_calculations, Create_force_sets] @
        (if inputs_is_nac example_inputs then [Create_nac_params] else []) @
        [Set_default_outputs, Prepare_phonopy_inputs] @
        (if inputs_run_phonopy example_inputs
         then (if inputs_remote_phonopy example_inputs
               then [Create_phonopy_builder, Run_phonopy_remote, Collect_data]
               else [Run_phonopy_in_workchain])
         else [])"
    by blast
  then have "fst (run_instructions (step_method example_externals) example_inputs outline initial_state) =
     [Check_settings, Optimize, Set_unitcell, Create_displacements,
      Run_force_and_nac_calculations, Create_force_sets, Set_default_outputs,
      Prepare_phonopy_inputs]"
    by (simp add: example_inputs_def)
  with r show ?thesis by blast
qed

lemma set_unitcell_not_optimized:
  "ctx_optimized st = None \<Longrightarrow>
     set_unitcell inputs st = Inr (st\<lparr>ctx_final_structure := Some (inputs_structure inputs)\<rparr>)"
  by (simp add: set_unitcell_def)

lemma completed_run_optimized:
  assumes run: "run_workchain ext inputs = (started, Inr st')"
  shows "(''optimized_data'' \<in> dom (outputs st') \<longleftrightarrow> inputs_optimize inputs) \<and>
         (Optimize \<in> set started \<longleftrightarrow> inputs_optimize inputs) \<and>
         (\<not> inputs_optimize inputs \<longrightarrow> ctx_final_structure st' = Some (inputs_structure inputs))"
proof -
  let ?rest = "[Create_displacements, Run_force_and_nac_calculations, Create_force_sets] @
     (if inputs_is_nac inputs then [Create_nac_params] else []) @
     [Set_default_outputs, Prepare_phonopy_inputs] @
     (if inputs_run_phonopy inputs
      then (if inputs_remote_phonopy inputs
            then [Create_phonopy_builder, Run_phonopy_remote, Collect_data]
            else [Run_phonopy_in_workchain])
      else [])"
  have rest: "Set_unitcell \<notin> set ?rest" "Optimize \<notin> set ?rest"
    by simp_all
  let ?ss = "scheduled inputs outline"
  from run have r: "run_steps (step_method ext) inputs ?ss initial_state = (started, Inr st')"
    by (simp only: run_workchain_def run_instructions_scheduled)
  from run_steps_completed [OF r] have started: "started = ?ss" .
  have keep_data: "outputs st' ''optimized_data'' = outputs st3 ''optimized_data''"
    if "run_steps (step_method ext) inputs ?rest st3 = (tr, Inr st')" for st3 tr
  proof (rule run_steps_preserves [OF that])
    fix s st u assume "s \<in> set ?rest" and "step_method ext s inputs st = Inr u"
    with rest(1) show "outputs u ''optimized_data'' = outputs st ''optimized_data''"
      using step_keeps_optimized_data [of ext s inputs st u] by auto
  qed
  have keep_structure: "ctx_final_structure st' = ctx_final_structure st3"
    if "run_steps (step_method ext) inputs ?rest st3 = (tr, Inr st')" for st3 tr
  proof (rule run_steps_preserves [OF that])
    fix s st u assume "s \<in> set ?rest" and "step_method ext s inputs st = Inr u"
    with rest(1) show "ctx_final_structure u = ctx_final_structure st"
      using step_keeps_final_structure [of ext s inputs st u] by auto
  qed
  show ?thesis
  proof (cases "inputs_optimize inputs")
    case True
    then have ss: "?ss = Check_settings # Optimize # Set_unitcell # ?rest"
      by (simp add: scheduled_outline)
    from r obtain st1 where
      r1: "run_steps (step_method ext) inputs (Optimize # Set_unitcell # ?rest) st1 =
         (Optimize # Set_unitcell # ?rest, Inr st')"
      unfolding ss by (rule run_steps_Cons_completed)
    from r1 obtain st2 where o: "step_method ext Optimize inputs st1 = Inr st2"
      and r2: "run_steps (step_method ext) inputs (Set_unitcell # ?rest) st2 =
             (Set_unitcell # ?rest, Inr st')"
      by (rule run_steps_Cons_completed)
    from r2 obtain st3 where u: "step_method ext Set_unitcell inputs st2 = Inr st3"
      and r3: "run_steps (step_method ext) inputs ?rest st3 = (?rest, Inr st')"
      by (rule run_steps_Cons_completed)
    from o have "ctx_optimized st2 \<noteq> None"
      by (simp add: optimize_frame(2))
    with u have "''optimized_data'' \<in> dom (outputs st3)"
      by (simp add: set_unitcell_effect(4))
    with keep_data [OF r3] have "''optimized_data'' \<in> dom (outputs st')"
      by (simp add: domIff)
    with True started ss show ?thesis by simp
  next
    case False
    then have ss: "?ss = Check_settings # Set_unitcell # ?rest"
      by (simp add: scheduled_outline)
    from r obtain st1 where c: "step_method ext Check_settings inputs initial_state = Inr st1"
      and r1: "run_steps (step_method ext) inputs (Set_unitcell # ?rest) st1 =
             (Set_unitcell # ?rest, Inr st')"
      unfolding ss by (rule run_steps_Cons_completed)
    from r1 obtain st2 where u: "step_method ext Set_unitcell inputs st1 = Inr st2"
      and r2: "run_steps (step_method ext) inputs ?rest st2 = (?rest, Inr st')"
      by (rule run_steps_Cons_completed)
    from c have none: "ctx_optimized st1 = None" and out1: "outputs st1 = Map.empty"
      by (simp_all add: check_settings_frame initial_state_def)
    from u none have "outputs st2 = outputs st1"
      and "ctx_final_structure st2 = Some (inputs_structure inputs)"
      by (simp_all add: set_unitcell_effect)
    with keep_data [OF r2] keep_structure [OF r2] out1
    have "''optimized_data'' \<notin> dom (outputs st')"
      and "ctx_final_structure st' = Some (inputs_structure inputs)"
      by (simp_all add: domIff)
    moreover from ss started rest(2) have "Optimize \<notin> set started" by simp
    ultimately show ?thesis using False by simp
  qed
qed

text \<open>
  Claim C9. If \<open>optimized\<close> is not in the context, \<open>set_unitcell\<close> completes and changes
  nothing but \<open>final_structure\<close>, which becomes the input structure: no output is emitted.
  Whatever outline the engine runs with the methods of the class, starting from the empty
  context, \<open>optimized_data\<close> is among the outputs only if the step \<open>optimize\<close> has run. In a
  completed run of the workchain, \<open>optimized_data\<close> is among the outputs if and only if the
  input \<open>optimize\<close> is true, which is when the step \<open>optimize\<close> has run, and otherwise the
  final structure is the input structure.
\<close>

theorem set_unitcell_unoptimized:
  "(ctx_optimized st = None \<longrightarrow>
      set_unitcell inputs st = Inr (st\<lparr>ctx_final_structure := Some (inputs_structure inputs)\<rparr>)) \<and>
   (\<forall>xs started st'.
      run_instructions (step_method ext) inputs xs initial_state = (started, Inr st') \<and>
      ''optimized_data'' \<in> dom (outputs st') \<longrightarrow> Optimize \<in> set started) \<and>
   (\<forall>started st'. run_workchain ext inputs = (started, Inr st') \<longrightarrow>
      (''optimized_data'' \<in> dom (outputs st') \<longleftrightarrow> inputs_optimize inputs) \<and>
      (Optimize \<in> set started \<longleftrightarrow> inputs_optimize inputs) \<and>
      (\<not> inputs_optimize inputs \<longrightarrow> ctx_final_structure st' = Some (inputs_structure inputs)))"
proof (intro conjI allI impI)
  assume "ctx_optimized st = None"
  then show "set_unitcell inputs st = Inr (st\<lparr>ctx_final_structure := Some (inputs_structure inputs)\<rparr>)"
    by (rule set_unitcell_not_optimized)
next
  fix xs started st'
  assume a: "run_instructions (step_method ext) inputs xs initial_state = (started, Inr st') \<and>
      ''optimized_data'' \<in> dom (outputs st')"
  then have "run_steps (step_method ext) inputs (scheduled inputs xs) initial_state = (started, Inr st')"
    by (simp only: run_instructions_scheduled)
  from optimized_only_after_optimize [OF this, of "{}"] a
  show "Optimize \<in> set started"
    by (simp add: initial_state_def)
next
  fix started st'
  assume "run_workchain ext inputs = (started, Inr st')"
  from completed_run_optimized [OF this]
  show "''optimized_data'' \<in> dom (outputs st') \<longleftrightarrow> inputs_optimize inputs"
    and "Optimize \<in> set started \<longleftrightarrow> inputs_optimize inputs"
    and "\<not> inputs_optimize inputs \<Longrightarrow> ctx_final_structure st' = Some (inputs_structure inputs)"
    by blast+
qed

theorem set_unitcell_unoptimized_witness:
  "ctx_optimized initial_state = None \<and>
   set_unitcell example_inputs initial_state =
     Inr (initial_state\<lparr>ctx_final_structure := Some (StructureData 1)\<rparr>) \<and>
   (\<exists>started st'. run_workchain example_externals example_inputs = (started, Inr st') \<and>
      inputs_optimize example_inputs \<and> Optimize \<in> set started \<and>
      ''optimized_data'' \<in> dom (outputs st'))"
proof -
  have none: "ctx_optimized initial_state = None"
    by (simp add: initial_state_def)
  have opt: "inputs_optimize example_inputs"
    and str: "inputs_structure example_inputs = StructureData 1"
    by (simp_all add: example_inputs_def)
  from default_run_evaluated obtain started st' where
    run: "run_workchain example_externals example_inputs = (started, Inr st')"
    by (cases "run_workchain example_externals example_inputs") (auto split: sum.splits)
  note claim = set_unitcell_unoptimized [of initial_state example_inputs example_externals]
  from claim none str
  have "set_unitcell example_inputs initial_state =
     Inr (initial_state\<lparr>ctx_final_structure := Some (StructureData 1)\<rparr>)"
    by simp
  moreover from claim run opt
  have "Optimize \<in> set started \<and> ''optimized_data'' \<in> dom (outputs st')"
    by blast
  ultimately show ?thesis using none opt run by blast
qed

end
